theory Spec2Isabelle
  imports Complex_Main
begin

section \<open>Numbers\<close>

text \<open>
  A TypeScript \<open>number\<close> is modelled as a \<^typ>\<open>real\<close>: rounding, overflow and the sign of
  zero are not modelled. Where the source relies on a value that is not a finite number
  (a division that may be by zero, a property that is not there) the value is a
  \<open>jsnum\<close>, with the cases that JavaScript distinguishes.
\<close>

datatype jsnum = Fin real | PosInf | NegInf | NaN

text \<open>\<open>x / y\<close> on numbers.\<close>

fun js_div :: "jsnum \<Rightarrow> jsnum \<Rightarrow> jsnum" where
  "js_div NaN _ = NaN"
| "js_div _ NaN = NaN"
| "js_div (Fin x) (Fin y) =
     (if y \<noteq> 0 then Fin (x / y)
      else if 0 < x then PosInf else if x < 0 then NegInf else NaN)"
| "js_div (Fin x) PosInf = Fin 0"
| "js_div (Fin x) NegInf = Fin 0"
| "js_div PosInf (Fin y) = (if 0 \<le> y then PosInf else NegInf)"
| "js_div NegInf (Fin y) = (if 0 \<le> y then NegInf else PosInf)"
| "js_div PosInf _ = NaN"
| "js_div NegInf _ = NaN"

text \<open>\<open>x < y\<close> on numbers: false as soon as one side is NaN.\<close>

fun js_less :: "jsnum \<Rightarrow> jsnum \<Rightarrow> bool" where
  "js_less NaN _ = False"
| "js_less _ NaN = False"
| "js_less (Fin x) (Fin y) = (x < y)"
| "js_less (Fin x) PosInf = True"
| "js_less (Fin x) NegInf = False"
| "js_less PosInf _ = False"
| "js_less NegInf NegInf = False"
| "js_less NegInf _ = True"

text \<open>Truthiness of a number (\<open>0\<close> and NaN are falsy) and \<open>x || y\<close> on numbers.\<close>

fun truthy :: "jsnum \<Rightarrow> bool" where
  "truthy (Fin x) = (x \<noteq> 0)"
| "truthy NaN = False"
| "truthy _ = True"

definition js_or :: "jsnum \<Rightarrow> jsnum \<Rightarrow> jsnum" where
  "js_or x y = (if truthy x then x else y)"

text \<open>A property read gives a number or \<open>undefined\<close>; arithmetic converts \<open>undefined\<close> to NaN.\<close>

datatype jsval = Undefined | Number jsnum

fun ToNumber :: "jsval \<Rightarrow> jsnum" where
  "ToNumber Undefined = NaN"
| "ToNumber (Number x) = x"

section \<open>Domain types (\<open>lib/types.ts\<close>)\<close>

text \<open>
  The Prisma enums (\<open>CompanyStage\<close>, \<open>CompanySector\<close>, \<open>PricingModel\<close>, \<open>Department\<close>,
  \<open>ScenarioType\<close>) are strings at run time and are kept as strings. An optional property
  is an \<^typ>\<open>'a option\<close>. Field names that two interfaces share carry the interface as a
  prefix.
\<close>

record CompanyInput =
  company_name :: string
  stage :: string
  sector :: string
  country :: string
  currency :: string
  company_startingCash :: real
  company_startingMRR :: real
  currentHeadcount :: real

record AssumptionInput =
  assumption_name :: string
  startMonth :: string
  months :: real
  pricingModel :: string
  arpu :: real
  expectedNewCustomersPerMonth :: real
  expansionRevenueRate :: real
  churnRate :: real
  cac :: real
  paybackPeriodMonths :: real
  grossMarginPercent :: real
  fixedCostsPerMonth :: real
  variableCostPercentOfRevenue :: real

record HiringPlanItemInput =
  monthOffset :: real
  roleName :: string
  count :: real
  monthlySalaryPerHead :: real
  department :: string

record MonthlyOverride =
  override_monthOffset :: real
  override_newCustomers :: "real option"
  override_fixedCosts :: "real option"

record ScenarioOverrides =
  customerGrowthMultiplier :: "real option"
  arpuMultiplier :: "real option"
  churnRateAdjustment :: "real option"
  expansionRevenueRateAdjustment :: "real option"
  grossMarginAdjustment :: "real option"
  fixedCostsMultiplier :: "real option"
  variableCostMultiplier :: "real option"
  hiringDelayMonths :: "real option"
  salaryMultiplier :: "real option"
  customMonthlyOverrides :: "MonthlyOverride list option"

record MonthlyProjection =
  monthIndex :: real
  month :: string
  startingCash :: real
  endingCash :: real
  netBurn :: real
  runwayMonths :: "real option"
  newCustomers :: real
  churnedCustomers :: real
  activeCustomers :: real
  mrr :: real
  revenue :: real
  cogs :: real
  grossProfit :: real
  salaryCosts :: real
  fixedCosts :: real
  variableCosts :: real
  totalOpex :: real
  headcount :: real

record ProjectionSummary =
  scenarioName :: string
  summary_startingMRR :: real
  endingMRR :: real
  mrrGrowthPercent :: real
  peakBurn :: real
  peakBurnMonth :: string
  avgMonthlyBurn :: real
  summary_startingCash :: real
  summary_endingCash :: real
  totalCashBurned :: real
  zeroCashMonth :: "string option"
  minRunway :: "real option"
  totalRevenue :: real
  startingHeadcount :: real
  endingHeadcount :: real
  ltv :: "real option"
  cacPaybackMonths :: real

record FinancialModelInput =
  company :: CompanyInput
  assumptions :: AssumptionInput
  hiringPlan :: "HiringPlanItemInput list"
  scenarioOverrides :: "ScenarioOverrides option"

record FinancialModelOutput =
  projections :: "MonthlyProjection list"
  summary :: ProjectionSummary

section \<open>Calculation primitives (\<open>financeEngine/calculations.ts\<close>)\<close>

text \<open>
  An optional chain \<open>overrides?.p\<close> is \<open>Option.bind overrides p\<close>: \<open>undefined\<close> when the
  overrides are omitted or have no property \<open>p\<close>. \<open>x ?? d\<close> is \<open>d\<close> when \<open>x\<close> is
  \<open>undefined\<close>.
\<close>

definition orDefault :: "real option \<Rightarrow> real \<Rightarrow> real" where
  "orDefault x d = (case x of None \<Rightarrow> d | Some v \<Rightarrow> v)"

text \<open>
  \<open>overrides?.customMonthlyOverrides?.find((o) => o.monthOffset === monthIndex)\<close>:
  the first entry of the list for this month, \<open>undefined\<close> when the overrides, the list
  or such an entry is missing.
\<close>

definition findCustomOverride :: "ScenarioOverrides option \<Rightarrow> real \<Rightarrow> MonthlyOverride option" where
  "findCustomOverride overrides mi =
     (case Option.bind overrides customMonthlyOverrides of
        None \<Rightarrow> None
      | Some entries \<Rightarrow> find (\<lambda>e. override_monthOffset e = mi) entries)"

text \<open>
  The list that \<open>find\<close> runs over: the entries of the overrides, none when the overrides
  or their list are missing.
\<close>

definition overrideEntries :: "ScenarioOverrides option \<Rightarrow> MonthlyOverride list" where
  "overrideEntries overrides =
     (case Option.bind overrides customMonthlyOverrides of None \<Rightarrow> [] | Some es \<Rightarrow> es)"

text \<open>
  \<open>calculateActiveCustomers\<close> returns the triple
  \<open>(newCustomers, churnedCustomers, activeCustomers)\<close>. The growth multiplier is applied
  under \<open>if (overrides?.customerGrowthMultiplier)\<close>, a truthiness test: a multiplier
  that is absent or \<open>0\<close> is not applied.
\<close>

definition calculateActiveCustomers ::
  "real \<Rightarrow> AssumptionInput \<Rightarrow> real \<Rightarrow> ScenarioOverrides option \<Rightarrow> real \<times> real \<times> real" where
  "calculateActiveCustomers previousActiveCustomers a mi overrides =
     (let customOverride = findCustomOverride overrides mi;
          newCustomers0 = expectedNewCustomersPerMonth a;
          newCustomers1 =
            (case Option.bind overrides customerGrowthMultiplier of
               None \<Rightarrow> newCustomers0
             | Some m \<Rightarrow> if truthy (Fin m) then newCustomers0 * m else newCustomers0);
          newCustomers2 =
            (case Option.bind customOverride override_newCustomers of
               None \<Rightarrow> newCustomers1
             | Some v \<Rightarrow> v);
          churned = previousActiveCustomers * churnRate a;
          active = max 0 (previousActiveCustomers + newCustomers2 - churned)
      in (newCustomers2, churned, active))"

text \<open>\<open>calculateRevenue\<close> returns the pair \<open>(mrr, revenue)\<close>.\<close>

definition calculateRevenue :: "real \<Rightarrow> AssumptionInput \<Rightarrow> real \<times> real" where
  "calculateRevenue active a =
     (let baseMRR = active * arpu a;
          expansionRevenue = baseMRR * expansionRevenueRate a;
          mrr' = baseMRR + expansionRevenue
      in (mrr', mrr'))"

text \<open>
  The hiring-plan items that have started by month \<open>mi\<close>:
  \<open>hiringPlan.filter((item) => item.monthOffset <= monthIndex - delayMonths)\<close>
  with \<open>delayMonths = overrides?.hiringDelayMonths ?? 0\<close>.
\<close>

definition delayMonths :: "ScenarioOverrides option \<Rightarrow> real" where
  "delayMonths overrides = orDefault (Option.bind overrides hiringDelayMonths) 0"

definition startedItems ::
  "HiringPlanItemInput list \<Rightarrow> real \<Rightarrow> ScenarioOverrides option \<Rightarrow> HiringPlanItemInput list" where
  "startedItems hp mi overrides = filter (\<lambda>item. monthOffset item \<le> mi - delayMonths overrides) hp"

text \<open>
  \<open>calculateCosts\<close> returns
  \<open>(cogs, grossProfit, salaryCosts, fixedCosts, variableCosts, totalOpex)\<close>.
\<close>

definition calculateCosts ::
  "real \<Rightarrow> real \<Rightarrow> HiringPlanItemInput list \<Rightarrow> AssumptionInput \<Rightarrow> ScenarioOverrides option
     \<Rightarrow> real \<times> real \<times> real \<times> real \<times> real \<times> real" where
  "calculateCosts revenue' mi hp a overrides =
     (let grossMarginDecimal = grossMarginPercent a / 100;
          cogs' = revenue' * (1 - grossMarginDecimal);
          grossProfit' = revenue' - cogs';
          variableCosts' = revenue' * variableCostPercentOfRevenue a;
          customOverride = findCustomOverride overrides mi;
          fixedCosts' =
            orDefault (Option.bind customOverride override_fixedCosts) (fixedCostsPerMonth a);
          salaryMult = orDefault (Option.bind overrides salaryMultiplier) 1;
          salaryCosts' =
            foldl (\<lambda>sum item. sum + count item * monthlySalaryPerHead item * salaryMult) 0
              (startedItems hp mi overrides);
          totalOpex' = cogs' + variableCosts' + fixedCosts' + salaryCosts'
      in (cogs', grossProfit', salaryCosts', fixedCosts', variableCosts', totalOpex'))"

text \<open>\<open>calculateRunway\<close>: \<open>null\<close> is \<open>None\<close>.\<close>

definition calculateRunway :: "real \<Rightarrow> real \<Rightarrow> real option" where
  "calculateRunway currentCash monthlyBurn =
     (if currentCash \<le> 0 then Some 0
      else if monthlyBurn \<le> 0 then None
      else Some (currentCash / monthlyBurn))"

text \<open>\<open>calculateLTV\<close> and \<open>calculateLTVtoCAC\<close> may return \<open>Infinity\<close>.\<close>

definition calculateLTV :: "real \<Rightarrow> real \<Rightarrow> jsnum" where
  "calculateLTV arpu' churnRate' =
     (if churnRate' = 0 then PosInf else js_div (Fin arpu') (Fin churnRate'))"

definition calculateLTVtoCAC :: "jsnum \<Rightarrow> real \<Rightarrow> jsnum" where
  "calculateLTVtoCAC ltv' cac' = (if cac' = 0 then PosInf else js_div ltv' (Fin cac'))"

section \<open>Month labels (\<open>financeEngine/utils.ts\<close>)\<close>

text \<open>
  A string is the list of the bytes of its UTF-8 encoding; the labels are ASCII.

  \<open>s.split("-")\<close>: the pieces of \<open>s\<close> between the dashes; never the empty list.
\<close>

fun split_dash :: "string \<Rightarrow> string list" where
  "split_dash [] = [[]]"
| "split_dash (c # cs) =
     (if c = CHR ''-'' then [] # split_dash cs
      else (case split_dash cs of [] \<Rightarrow> [[c]] | w # ws \<Rightarrow> (c # w) # ws))"

text \<open>
  \<open>Number(s)\<close> on a string. White space and line terminators are stripped at both ends;
  what is left is nothing (the number \<open>0\<close>), a literal with the prefix \<open>0x\<close>, \<open>0o\<close>
  or \<open>0b\<close> (either case, no sign), or a decimal literal with an optional sign:
  \<open>Infinity\<close>, or digits with an optional fraction and an optional exponent, at least
  one digit before or after the point. Everything else is NaN. The value of a literal is
  exact here: its rounding to a double is not modelled.
\<close>

definition digit_table :: "(char \<times> nat) list" where
  "digit_table =
     [(CHR ''0'', 0), (CHR ''1'', 1), (CHR ''2'', 2), (CHR ''3'', 3), (CHR ''4'', 4),
      (CHR ''5'', 5), (CHR ''6'', 6), (CHR ''7'', 7), (CHR ''8'', 8), (CHR ''9'', 9)]"

definition letter_table :: "(char \<times> nat) list" where
  "letter_table =
     [(CHR ''a'', 10), (CHR ''b'', 11), (CHR ''c'', 12), (CHR ''d'', 13), (CHR ''e'', 14),
      (CHR ''f'', 15), (CHR ''A'', 10), (CHR ''B'', 11), (CHR ''C'', 12), (CHR ''D'', 13),
      (CHR ''E'', 14), (CHR ''F'', 15)]"

definition digit_val :: "char \<Rightarrow> nat option" where
  "digit_val c = map_of digit_table c"

definition hex_val :: "char \<Rightarrow> nat option" where
  "hex_val c = map_of (digit_table @ letter_table) c"

definition digit_char :: "nat \<Rightarrow> char" where
  "digit_char d = fst (digit_table ! d)"

definition is_digit :: "char \<Rightarrow> bool" where
  "is_digit c = (case digit_val c of None \<Rightarrow> False | Some d \<Rightarrow> True)"

text \<open>The digits \<open>s\<close> read in base \<open>b\<close>, most significant first.\<close>

definition digits_value :: "nat \<Rightarrow> string \<Rightarrow> nat" where
  "digits_value b s =
     foldl (\<lambda>acc c. b * acc + (case hex_val c of None \<Rightarrow> 0 | Some d \<Rightarrow> d)) 0 s"

text \<open>
  The white space and the line terminators of JavaScript: TAB, LF, VT, FF, CR, SP, and
  in UTF-8 the code points U+00A0, U+1680, U+2000 to U+200A, U+2028, U+2029, U+202F,
  U+205F, U+3000 and U+FEFF.
\<close>

definition white_space :: "string list" where
  "white_space =
     [[CHR 0x09], [CHR 0x0A], [CHR 0x0B], [CHR 0x0C], [CHR 0x0D], [CHR 0x20],
      [CHR 0xC2, CHR 0xA0], [CHR 0xE1, CHR 0x9A, CHR 0x80],
      [CHR 0xE2, CHR 0x80, CHR 0x80], [CHR 0xE2, CHR 0x80, CHR 0x81],
      [CHR 0xE2, CHR 0x80, CHR 0x82], [CHR 0xE2, CHR 0x80, CHR 0x83],
      [CHR 0xE2, CHR 0x80, CHR 0x84], [CHR 0xE2, CHR 0x80, CHR 0x85],
      [CHR 0xE2, CHR 0x80, CHR 0x86], [CHR 0xE2, CHR 0x80, CHR 0x87],
      [CHR 0xE2, CHR 0x80, CHR 0x88], [CHR 0xE2, CHR 0x80, CHR 0x89],
      [CHR 0xE2, CHR 0x80, CHR 0x8A], [CHR 0xE2, CHR 0x80, CHR 0xA8],
      [CHR 0xE2, CHR 0x80, CHR 0xA9], [CHR 0xE2, CHR 0x80, CHR 0xAF],
      [CHR 0xE2, CHR 0x81, CHR 0x9F], [CHR 0xE3, CHR 0x80, CHR 0x80],
      [CHR 0xEF, CHR 0xBB, CHR 0xBF]]"

text \<open>The length of the sequence of \<open>ws\<close> that \<open>s\<close> starts with, \<open>0\<close> when there is none.\<close>

definition leading_space :: "string list \<Rightarrow> string \<Rightarrow> nat" where
  "leading_space ws s =
     (case find (\<lambda>w. take (length w) s = w) ws of None \<Rightarrow> 0 | Some w \<Rightarrow> length w)"

function strip_leading :: "string list \<Rightarrow> string \<Rightarrow> string" where
  "strip_leading ws s =
     (if leading_space ws s = 0 \<or> s = [] then s
      else strip_leading ws (drop (leading_space ws s) s))"
  by pat_completeness auto
termination
  by (relation "measure (\<lambda>(ws, s). length s)") auto

declare strip_leading.simps [simp del]

definition trim :: "string \<Rightarrow> string" where
  "trim s = rev (strip_leading (map rev white_space) (rev (strip_leading white_space s)))"

text \<open>A literal with a radix prefix: its value, NaN without digits or with a wrong one.\<close>

definition radix_value :: "nat \<Rightarrow> string \<Rightarrow> jsnum" where
  "radix_value b ds =
     (if ds \<noteq> [] \<and> list_all (\<lambda>c. case hex_val c of None \<Rightarrow> False | Some d \<Rightarrow> d < b) ds
      then Fin (real (digits_value b ds)) else NaN)"

definition radix_literal :: "string \<Rightarrow> jsnum option" where
  "radix_literal s =
     (case s of
        c0 # c1 # ds \<Rightarrow>
          if c0 = CHR ''0'' then
            (if c1 = CHR ''x'' \<or> c1 = CHR ''X'' then Some (radix_value 16 ds)
             else if c1 = CHR ''o'' \<or> c1 = CHR ''O'' then Some (radix_value 8 ds)
             else if c1 = CHR ''b'' \<or> c1 = CHR ''B'' then Some (radix_value 2 ds)
             else None)
          else None
      | _ \<Rightarrow> None)"

text \<open>The exponent part: absent, or \<open>e\<close> or \<open>E\<close>, an optional sign and digits.\<close>

definition exponent_part :: "string \<Rightarrow> int option" where
  "exponent_part s =
     (case s of
        [] \<Rightarrow> Some 0
      | c # t \<Rightarrow>
          if c = CHR ''e'' \<or> c = CHR ''E'' then
            (let negative = (case t of [] \<Rightarrow> False | d # u \<Rightarrow> d = CHR ''-'');
                 ds = (case t of [] \<Rightarrow> [] | d # u \<Rightarrow> if d = CHR ''+'' \<or> d = CHR ''-'' then u else t)
             in if ds \<noteq> [] \<and> list_all is_digit ds
                then Some (if negative then - int (digits_value 10 ds) else int (digits_value 10 ds))
                else None)
          else None)"

definition scale10 :: "real \<Rightarrow> int \<Rightarrow> real" where
  "scale10 x e = (if 0 \<le> e then x * 10 ^ nat e else x / 10 ^ nat (- e))"

definition decimal_literal :: "string \<Rightarrow> real option" where
  "decimal_literal s =
     (let ip = takeWhile is_digit s;
          r1 = dropWhile is_digit s;
          point = (case r1 of [] \<Rightarrow> False | c # t \<Rightarrow> c = CHR ''.'');
          fp = (if point then takeWhile is_digit (tl r1) else []);
          r2 = (if point then dropWhile is_digit (tl r1) else r1)
      in if ip = [] \<and> fp = [] then None
         else (case exponent_part r2 of
                 None \<Rightarrow> None
               | Some e \<Rightarrow>
                   Some (scale10 (real (digits_value 10 ip)
                                  + real (digits_value 10 fp) / 10 ^ length fp) e)))"

definition unsigned_literal :: "string \<Rightarrow> jsnum" where
  "unsigned_literal s =
     (if s = ''Infinity'' then PosInf
      else (case decimal_literal s of None \<Rightarrow> NaN | Some x \<Rightarrow> Fin x))"

fun js_neg :: "jsnum \<Rightarrow> jsnum" where
  "js_neg (Fin x) = Fin (- x)"
| "js_neg PosInf = NegInf"
| "js_neg NegInf = PosInf"
| "js_neg NaN = NaN"

definition Number_str :: "string \<Rightarrow> jsnum" where
  "Number_str s =
     (let t = trim s
      in if t = [] then Fin 0
         else (case radix_literal t of
                 Some v \<Rightarrow> v
               | None \<Rightarrow>
                   (case t of
                      [] \<Rightarrow> Fin 0
                    | c # u \<Rightarrow>
                        if c = CHR ''+'' then unsigned_literal u
                        else if c = CHR ''-'' then js_neg (unsigned_literal u)
                        else unsigned_literal t)))"

text \<open>\<open>String(n)\<close> for an integer and \<open>s.padStart(2, "0")\<close>.\<close>

fun digits :: "nat \<Rightarrow> string" where
  "digits n = (if n < 10 then [digit_char n] else digits (n div 10) @ [digit_char (n mod 10)])"

declare digits.simps [simp del]

definition String_int :: "int \<Rightarrow> string" where
  "String_int i = (if i < 0 then CHR ''-'' # digits (nat (- i)) else digits (nat i))"

definition padStart2 :: "string \<Rightarrow> string" where
  "padStart2 s = (if length s < 2 then replicate (2 - length s) (CHR ''0'') @ s else s)"

text \<open>
  A \<open>Date\<close> on the first day of a month at local midnight is its year and its month index
  \<open>0..11\<close>; \<open>InvalidDate\<close> is the date whose time value is NaN. The time value of a date
  is limited to 100 000 000 days either side of 1970, from 20 April of the year -271821
  to 13 September of the year 275760: the first of a month is a date from May -271821 to
  September 275760, counted in months from the year 0. The time zone and daylight saving
  are not modelled.
\<close>

datatype Date = InvalidDate | Date int int

definition min_month :: int where
  "min_month = - 271821 * 12 + 4"

definition max_month :: int where
  "max_month = 275760 * 12 + 8"

definition firstOfMonth :: "int \<Rightarrow> Date" where
  "firstOfMonth t =
     (if min_month \<le> t \<and> t \<le> max_month then Date (t div 12) (t mod 12) else InvalidDate)"

text \<open>
  The arguments of \<open>new Date(year, month, 1)\<close> and of \<open>setMonth\<close> are cut to integers
  towards \<open>0\<close>; one that is not finite gives the invalid date. The constructor adds 1900
  to a year from 0 to 99, and a month index outside \<open>0..11\<close> is carried into the year.
\<close>

definition trunc :: "real \<Rightarrow> int" where
  "trunc x = (if 0 \<le> x then \<lfloor>x\<rfloor> else \<lceil>x\<rceil>)"

fun newDate :: "jsnum \<Rightarrow> jsnum \<Rightarrow> Date" where
  "newDate (Fin y) (Fin m) =
     (let yi = trunc y;
          yr = (if 0 \<le> yi \<and> yi \<le> 99 then 1900 + yi else yi)
      in firstOfMonth (yr * 12 + trunc m))"
| "newDate _ _ = InvalidDate"

fun getFullYear :: "Date \<Rightarrow> int option" where
  "getFullYear InvalidDate = None"
| "getFullYear (Date y m) = Some y"

fun getMonth :: "Date \<Rightarrow> int option" where
  "getMonth InvalidDate = None"
| "getMonth (Date y m) = Some m"

fun setMonth :: "Date \<Rightarrow> int option \<Rightarrow> Date" where
  "setMonth InvalidDate _ = InvalidDate"
| "setMonth (Date y m) None = InvalidDate"
| "setMonth (Date y m) (Some k) = firstOfMonth (y * 12 + k)"

definition String_num :: "int option \<Rightarrow> string" where
  "String_num n = (case n of None \<Rightarrow> ''NaN'' | Some i \<Rightarrow> String_int i)"

definition formatMonth :: "Date \<Rightarrow> string" where
  "formatMonth date =
     (let year' = getFullYear date;
          month' = padStart2 (String_num (map_option (\<lambda>m. m + 1) (getMonth date)))
      in String_num year' @ ''-'' @ month')"

text \<open>\<open>x - 1\<close> on a number.\<close>

fun js_pred :: "jsnum \<Rightarrow> jsnum" where
  "js_pred (Fin x) = Fin (x - 1)"
| "js_pred x = x"

text \<open>
  \<open>const [year, month] = startMonth.split("-").map(Number)\<close>: a missing second piece is
  \<open>undefined\<close>, and \<open>undefined - 1\<close> is NaN. \<open>monthsToAdd\<close> is an integer, as the loop
  index is.
\<close>

definition addMonths :: "string \<Rightarrow> int \<Rightarrow> string" where
  "addMonths start monthsToAdd =
     (let parts = map Number_str (split_dash start);
          year' = (case parts of [] \<Rightarrow> NaN | y # _ \<Rightarrow> y);
          month' = (case parts of y # m # _ \<Rightarrow> m | _ \<Rightarrow> NaN);
          date = newDate year' (js_pred month');
          date' = setMonth date (map_option (\<lambda>m. m + monthsToAdd) (getMonth date))
      in formatMonth date')"

section \<open>Projection driver (\<open>financeEngine/index.ts\<close>)\<close>

text \<open>
  \<open>applyScenarioOverrides\<close>: \<open>!overrides\<close> holds for an omitted argument only (an empty
  object is truthy).
\<close>

definition applyScenarioOverrides :: "AssumptionInput \<Rightarrow> ScenarioOverrides option \<Rightarrow> AssumptionInput" where
  "applyScenarioOverrides a overrides =
     (case overrides of
        None \<Rightarrow> a
      | Some ov \<Rightarrow>
          a\<lparr>arpu := arpu a * orDefault (arpuMultiplier ov) 1,
            churnRate := max 0 (min 1 (churnRate a + orDefault (churnRateAdjustment ov) 0)),
            expansionRevenueRate :=
              expansionRevenueRate a + orDefault (expansionRevenueRateAdjustment ov) 0,
            grossMarginPercent := grossMarginPercent a + orDefault (grossMarginAdjustment ov) 0,
            fixedCostsPerMonth := fixedCostsPerMonth a * orDefault (fixedCostsMultiplier ov) 1,
            variableCostPercentOfRevenue :=
              variableCostPercentOfRevenue a * orDefault (variableCostMultiplier ov) 1\<rparr>)"

definition calculateHeadcount ::
  "real \<Rightarrow> HiringPlanItemInput list \<Rightarrow> ScenarioOverrides option \<Rightarrow> real" where
  "calculateHeadcount mi hp overrides =
     foldl (\<lambda>sum item. sum + count item) 0 (startedItems hp mi overrides)"

text \<open>
  The body of the loop of \<open>runScenario\<close> for month \<open>i\<close>, from the cash and the active
  customers carried over: the record pushed onto \<open>projections\<close>. \<open>a\<close> is the base
  assumption set (read for \<open>startMonth\<close>), \<open>ea\<close> the effective one.
\<close>

definition projectMonth ::
  "AssumptionInput \<Rightarrow> AssumptionInput \<Rightarrow> HiringPlanItemInput list \<Rightarrow> ScenarioOverrides option
     \<Rightarrow> nat \<Rightarrow> real \<Rightarrow> real \<Rightarrow> MonthlyProjection" where
  "projectMonth a ea hp overrides i currentCash currentActiveCustomers =
     (let month' = addMonths (startMonth a) (int i);
          (newCustomers', churnedCustomers', activeCustomers') =
            calculateActiveCustomers currentActiveCustomers ea (real i) overrides;
          (mrr', revenue') = calculateRevenue activeCustomers' ea;
          (cogs', grossProfit', salaryCosts', fixedCosts', variableCosts', totalOpex') =
            calculateCosts revenue' (real i) hp ea overrides;
          netBurn' = totalOpex' - revenue';
          startingCash' = currentCash;
          endingCash' = startingCash' - netBurn';
          runwayMonths' = calculateRunway endingCash' netBurn';
          headcount' = calculateHeadcount (real i) hp overrides
      in \<lparr>monthIndex = real i, month = month', startingCash = startingCash',
          endingCash = endingCash', netBurn = netBurn', runwayMonths = runwayMonths',
          newCustomers = newCustomers', churnedCustomers = churnedCustomers',
          activeCustomers = activeCustomers', mrr = mrr', revenue = revenue', cogs = cogs',
          grossProfit = grossProfit', salaryCosts = salaryCosts', fixedCosts = fixedCosts',
          variableCosts = variableCosts', totalOpex = totalOpex', headcount = headcount'\<rparr>)"

text \<open>
  The loop \<open>for (let monthIndex = 0; monthIndex < assumptions.months; monthIndex++)\<close>
  from month \<open>i\<close> on: the records it pushes, in order. The cash and the active customers
  of the next month are the ending cash and the active customers of this one.
\<close>

function monthLoop ::
  "AssumptionInput \<Rightarrow> AssumptionInput \<Rightarrow> HiringPlanItemInput list \<Rightarrow> ScenarioOverrides option
     \<Rightarrow> nat \<Rightarrow> real \<Rightarrow> real \<Rightarrow> MonthlyProjection list" where
  "monthLoop a ea hp overrides i currentCash currentActiveCustomers =
     (if real i < months a
      then (let p = projectMonth a ea hp overrides i currentCash currentActiveCustomers
            in p # monthLoop a ea hp overrides (Suc i) (endingCash p) (activeCustomers p))
      else [])"
  by pat_completeness auto
termination
proof (relation "measure (\<lambda>(a, ea, hp, overrides, i, cash, active). nat \<lceil>months a\<rceil> - i)")
  show "wf (measure (\<lambda>(a, ea, hp, overrides, i, cash, active). nat \<lceil>months a\<rceil> - i))"
    by simp
next
  fix a ea :: AssumptionInput and hp :: "HiringPlanItemInput list"
    and overrides :: "ScenarioOverrides option" and i :: nat
    and currentCash currentActiveCustomers :: real and p :: MonthlyProjection
  assume lt: "real i < months a"
  have "int i < \<lceil>months a\<rceil>"
    using lt by (simp add: less_ceiling_iff)
  then have "i < nat \<lceil>months a\<rceil>"
    by linarith
  then show "((a, ea, hp, overrides, Suc i, endingCash p, activeCustomers p),
              (a, ea, hp, overrides, i, currentCash, currentActiveCustomers))
             \<in> measure (\<lambda>(a, ea, hp, overrides, i, cash, active). nat \<lceil>months a\<rceil> - i)"
    by simp
qed

declare monthLoop.simps [simp del]

text \<open>
  \<open>generateSummary\<close> throws on an empty list. \<open>Array.prototype.sort\<close> is stable, as
  \<^const>\<open>sort_key\<close> is, and the comparison \<open>b.netBurn - a.netBurn\<close> orders by falling
  net burn. \<open>reduce\<close> is a left fold.
\<close>

datatype error = EmptyProjections | NonFinite

definition generateSummary :: "MonthlyProjection list \<Rightarrow> AssumptionInput \<Rightarrow> error + ProjectionSummary" where
  "generateSummary ps a =
     (if length ps = 0 then Inl EmptyProjections
      else
        (let firstProjection = ps ! 0;
             lastProjection = ps ! (length ps - 1);
             burnProjections = sort_key (\<lambda>p. - netBurn p) (filter (\<lambda>p. netBurn p > 0) ps);
             peakBurnProjection = (case burnProjections of [] \<Rightarrow> lastProjection | p # _ \<Rightarrow> p);
             totalRevenue' = foldl (\<lambda>sum p. sum + revenue p) 0 ps;
             totalBurn = foldl (\<lambda>sum p. sum + max 0 (netBurn p)) 0 ps;
             avgMonthlyBurn' =
               (if length burnProjections > 0
                then foldl (\<lambda>sum p. sum + netBurn p) 0 burnProjections / real (length burnProjections)
                else 0);
             zeroCashProjection = find (\<lambda>p. endingCash p \<le> 0) ps;
             validRunways = map the (filter (\<lambda>r. r \<noteq> None) (map runwayMonths ps));
             minRunway' = (case validRunways of [] \<Rightarrow> None | r # rs \<Rightarrow> Some (foldl min r rs));
             mrrGrowth =
               (if mrr firstProjection > 0
                then ((mrr lastProjection - mrr firstProjection) / mrr firstProjection) * 100
                else 0);
             avgMRR = foldl (\<lambda>sum p. sum + mrr p) 0 ps / real (length ps);
             avgChurnRate = churnRate a;
             ltv' = (if avgChurnRate > 0 then Some (avgMRR / avgChurnRate) else None)
         in Inr \<lparr>scenarioName = ''BASE'',
                 summary_startingMRR = mrr firstProjection,
                 endingMRR = mrr lastProjection,
                 mrrGrowthPercent = mrrGrowth,
                 peakBurn = netBurn peakBurnProjection,
                 peakBurnMonth = month peakBurnProjection,
                 avgMonthlyBurn = avgMonthlyBurn',
                 summary_startingCash = startingCash firstProjection,
                 summary_endingCash = endingCash lastProjection,
                 totalCashBurned = totalBurn,
                 zeroCashMonth = map_option month zeroCashProjection,
                 minRunway = minRunway',
                 totalRevenue = totalRevenue',
                 startingHeadcount = headcount firstProjection,
                 endingHeadcount = headcount lastProjection,
                 ltv = ltv',
                 cacPaybackMonths = paybackPeriodMonths a\<rparr>))"

text \<open>
  \<open>runScenario\<close> starts the active customers at
  \<open>assumptions.startingMRR / assumptions.arpu || 0\<close>. \<open>AssumptionInput\<close> declares no
  property \<open>startingMRR\<close> (it is a property of \<open>CompanyInput\<close>), and the route that calls
  \<open>runScenario\<close> builds the assumptions from the thirteen declared properties: the read
  gives \<open>undefined\<close>.
\<close>

definition assumptions_startingMRR :: "AssumptionInput \<Rightarrow> jsval" where
  "assumptions_startingMRR a = Undefined"

definition startingActiveCustomers :: "AssumptionInput \<Rightarrow> jsnum" where
  "startingActiveCustomers a =
     js_or (js_div (ToNumber (assumptions_startingMRR a)) (Fin (arpu a))) (Fin 0)"

text \<open>
  The months are computed on reals; a starting count that is not finite would be outside
  this model (\<open>NonFinite\<close>).
\<close>

definition runScenario :: "FinancialModelInput \<Rightarrow> error + FinancialModelOutput" where
  "runScenario input =
     (let a = assumptions input;
          effectiveAssumptions = applyScenarioOverrides a (scenarioOverrides input);
          currentCash = company_startingCash (company input)
      in (case startingActiveCustomers a of
            Fin currentActiveCustomers \<Rightarrow>
              (let ps = monthLoop a effectiveAssumptions (hiringPlan input) (scenarioOverrides input)
                          0 currentCash currentActiveCustomers
               in (case generateSummary ps a of
                     Inl e \<Rightarrow> Inl e
                   | Inr s \<Rightarrow> Inr \<lparr>projections = ps, summary = s\<rparr>))
          | _ \<Rightarrow> Inl NonFinite))"

section \<open>Sanity checker (\<open>financeEngine/sanityCheck.ts\<close>)\<close>

text \<open>
  A message is a string, or a template with one number printed by \<open>toFixed(1)\<close>; the
  number is kept as it is, not its decimal text.
\<close>

datatype severity = Low | Medium | High

datatype message = Text string | Fixed1 string jsnum string

record SanityWarning =
  severity :: severity
  field :: string
  message :: message
  suggestion :: "string option"

record SanityCheckResult =
  passed :: bool
  warnings :: "SanityWarning list"

definition checkChurnRate :: "AssumptionInput \<Rightarrow> SanityWarning list" where
  "checkChurnRate a =
     (if churnRate a < 0 \<or> churnRate a > 1 then
        [\<lparr>severity = High, field = ''churnRate'',
          message = Text ''Churn rate must be between 0 and 1 (0% to 100%)'',
          suggestion = Some ''Typical SaaS churn rates are 3-7% monthly for SMB, 0.5-1% for enterprise''\<rparr>]
      else if churnRate a > 15 / 100 then
        [\<lparr>severity = Medium, field = ''churnRate'',
          message = Text ''Churn rate is unusually high (>15% monthly)'',
          suggestion = Some ''Consider if this is realistic for your business model''\<rparr>]
      else [])"

definition checkArpu :: "AssumptionInput \<Rightarrow> SanityWarning list" where
  "checkArpu a =
     (if arpu a \<le> 0 then
        [\<lparr>severity = High, field = ''arpu'',
          message = Text ''ARPU (Average Revenue Per User) must be positive'',
          suggestion = None\<rparr>]
      else if arpu a < 10 then
        [\<lparr>severity = Low, field = ''arpu'',
          message = Text ''ARPU is very low (<$10)'',
          suggestion = Some ''Verify this matches your pricing model''\<rparr>]
      else [])"

definition checkCacPayback :: "AssumptionInput \<Rightarrow> SanityWarning list" where
  "checkCacPayback a =
     (if cac a \<le> 0 \<and> paybackPeriodMonths a > 0 then
        [\<lparr>severity = Medium, field = ''cac'',
          message = Text ''CAC is zero but payback period is set'',
          suggestion = Some ''Either set a realistic CAC or set payback to 0''\<rparr>]
      else [])"

definition checkLtvToCac :: "AssumptionInput \<Rightarrow> SanityWarning list" where
  "checkLtvToCac a =
     (if cac a > 0 \<and> churnRate a > 0 then
        (let ltv' = calculateLTV (arpu a) (churnRate a);
             ltvToCac = calculateLTVtoCAC ltv' (cac a)
         in if js_less ltvToCac (Fin 3) then
              [\<lparr>severity = High, field = ''cac'',
                message = Fixed1 ''LTV:CAC ratio is '' ltvToCac '' (< 3:1)'',
                suggestion = Some ''Healthy SaaS businesses typically have LTV:CAC > 3. Consider reducing CAC or improving retention.''\<rparr>]
            else [])
      else [])"

definition checkPaybackPeriod :: "AssumptionInput \<Rightarrow> SanityWarning list" where
  "checkPaybackPeriod a =
     (if paybackPeriodMonths a > 24 then
        [\<lparr>severity = Medium, field = ''paybackPeriodMonths'',
          message = Text ''CAC payback period is > 24 months'',
          suggestion = Some ''Target payback period is typically 12-18 months for healthy SaaS''\<rparr>]
      else [])"

definition checkGrossMargin :: "AssumptionInput \<Rightarrow> SanityWarning list" where
  "checkGrossMargin a =
     (if grossMarginPercent a < 0 \<or> grossMarginPercent a > 100 then
        [\<lparr>severity = High, field = ''grossMarginPercent'',
          message = Text ''Gross margin must be between 0% and 100%'',
          suggestion = None\<rparr>]
      else if grossMarginPercent a < 50 then
        [\<lparr>severity = Medium, field = ''grossMarginPercent'',
          message = Text ''Gross margin is below 50%'',
          suggestion = Some ''Typical SaaS gross margins are 70-85%''\<rparr>]
      else [])"

definition checkStartingCash :: "CompanyInput \<Rightarrow> AssumptionInput \<Rightarrow> SanityWarning list" where
  "checkStartingCash c a =
     (let estimatedMonthlyBurn = fixedCostsPerMonth a + (expectedNewCustomersPerMonth a * cac a);
          estimatedRunway = js_div (Fin (company_startingCash c)) (Fin estimatedMonthlyBurn)
      in if js_less estimatedRunway (Fin 6) then
           [\<lparr>severity = High, field = ''startingCash'',
             message = Fixed1 ''Estimated runway is '' estimatedRunway '' months (< 6 months)'',
             suggestion = Some ''Consider raising more capital or reducing burn''\<rparr>]
         else if js_less estimatedRunway (Fin 12) then
           [\<lparr>severity = Medium, field = ''startingCash'',
             message = Fixed1 ''Estimated runway is '' estimatedRunway '' months (< 12 months)'',
             suggestion = Some ''Start planning your next fundraise''\<rparr>]
         else [])"

definition checkGrowthRate :: "AssumptionInput \<Rightarrow> SanityWarning list" where
  "checkGrowthRate a =
     (if expectedNewCustomersPerMonth a < 0 then
        [\<lparr>severity = High, field = ''expectedNewCustomersPerMonth'',
          message = Text ''Expected new customers cannot be negative'',
          suggestion = None\<rparr>]
      else [])"

definition checkExpansionRevenue :: "AssumptionInput \<Rightarrow> SanityWarning list" where
  "checkExpansionRevenue a =
     (if expansionRevenueRate a < 0 \<or> expansionRevenueRate a > 1 then
        [\<lparr>severity = Medium, field = ''expansionRevenueRate'',
          message = Text ''Expansion revenue rate should be between 0 and 1 (0% to 100%)'',
          suggestion = Some ''Typical expansion rates are 5-25% annually for strong SaaS companies''\<rparr>]
      else [])"

text \<open>The checks push their warnings in this order; none stops the others.\<close>

definition runSanityChecks :: "CompanyInput \<Rightarrow> AssumptionInput \<Rightarrow> SanityCheckResult" where
  "runSanityChecks c a =
     (let ws = checkChurnRate a @ checkArpu a @ checkCacPayback a @ checkLtvToCac a
               @ checkPaybackPeriod a @ checkGrossMargin a @ checkStartingCash c a
               @ checkGrowthRate a @ checkExpansionRevenue a
      in \<lparr>passed = (length (filter (\<lambda>w. severity w = High) ws) = 0), warnings = ws\<rparr>)"

text \<open>
  \<open>getBenchmarks\<close> reads \<open>benchmarks[stage]\<close> on an object literal with three own
  properties. A property read on an object also finds the members the object inherits
  from \<open>Object.prototype\<close>, which are functions or objects and so truthy.
\<close>

record Range =
  range_min :: real
  range_max :: real
  target :: real

record Benchmarks =
  benchmark_churnRate :: Range
  grossMargin :: Range
  ltvToCac :: Range
  paybackMonths :: Range

datatype benchmark_value = Tier Benchmarks | Inherited string

definition PRE_SEED :: Benchmarks where
  "PRE_SEED =
     \<lparr>benchmark_churnRate = \<lparr>range_min = 3 / 100, range_max = 1 / 10, target = 5 / 100\<rparr>,
      grossMargin = \<lparr>range_min = 60, range_max = 85, target = 75\<rparr>,
      ltvToCac = \<lparr>range_min = 2, range_max = 5, target = 3\<rparr>,
      paybackMonths = \<lparr>range_min = 6, range_max = 18, target = 12\<rparr>\<rparr>"

definition SEED :: Benchmarks where
  "SEED =
     \<lparr>benchmark_churnRate = \<lparr>range_min = 2 / 100, range_max = 7 / 100, target = 4 / 100\<rparr>,
      grossMargin = \<lparr>range_min = 65, range_max = 85, target = 78\<rparr>,
      ltvToCac = \<lparr>range_min = 3, range_max = 6, target = 4\<rparr>,
      paybackMonths = \<lparr>range_min = 6, range_max = 15, target = 10\<rparr>\<rparr>"

definition SERIES_A :: Benchmarks where
  "SERIES_A =
     \<lparr>benchmark_churnRate = \<lparr>range_min = 1 / 100, range_max = 5 / 100, target = 3 / 100\<rparr>,
      grossMargin = \<lparr>range_min = 70, range_max = 90, target = 80\<rparr>,
      ltvToCac = \<lparr>range_min = 3, range_max = 7, target = 5\<rparr>,
      paybackMonths = \<lparr>range_min = 6, range_max = 12, target = 9\<rparr>\<rparr>"

definition benchmarks_own :: "(string \<times> Benchmarks) list" where
  "benchmarks_own = [(''PRE_SEED'', PRE_SEED), (''SEED'', SEED), (''SERIES_A'', SERIES_A)]"

definition Object_prototype_names :: "string list" where
  "Object_prototype_names =
     [''constructor'', ''__defineGetter__'', ''__defineSetter__'', ''hasOwnProperty'',
      ''__lookupGetter__'', ''__lookupSetter__'', ''isPrototypeOf'', ''propertyIsEnumerable'',
      ''toString'', ''valueOf'', ''__proto__'', ''toLocaleString'']"

definition benchmarks_get :: "string \<Rightarrow> benchmark_value option" where
  "benchmarks_get key =
     (case map_of benchmarks_own key of
        Some t \<Rightarrow> Some (Tier t)
      | None \<Rightarrow> if key \<in> set Object_prototype_names then Some (Inherited key) else None)"

definition getBenchmarks :: "string \<Rightarrow> benchmark_value" where
  "getBenchmarks stage' = (case benchmarks_get stage' of Some v \<Rightarrow> v | None \<Rightarrow> Tier SEED)"

section \<open>Concrete inputs\<close>

text \<open>The scenario of the specification and of the quick-start guide.\<close>

definition spec_company :: CompanyInput where
  "spec_company =
     \<lparr>company_name = ''Test Startup'', stage = ''SEED'', sector = ''SAAS'', country = ''US'',
      currency = ''USD'', company_startingCash = 500000, company_startingMRR = 10000,
      currentHeadcount = 5\<rparr>"

definition spec_assumptions :: AssumptionInput where
  "spec_assumptions =
     \<lparr>assumption_name = ''Base Case'', startMonth = ''2024-01'', months = 24,
      pricingModel = ''PER_SEAT'', arpu = 100, expectedNewCustomersPerMonth = 10,
      expansionRevenueRate = 5 / 100, churnRate = 5 / 100, cac = 500, paybackPeriodMonths = 12,
      grossMarginPercent = 80, fixedCostsPerMonth = 15000,
      variableCostPercentOfRevenue = 1 / 10\<rparr>"

definition spec_hiring :: "HiringPlanItemInput list" where
  "spec_hiring =
     [\<lparr>monthOffset = 0, roleName = ''Engineer'', count = 3, monthlySalaryPerHead = 10000,
       department = ''ENGINEERING''\<rparr>,
      \<lparr>monthOffset = 6, roleName = ''Sales Rep'', count = 2, monthlySalaryPerHead = 8000,
       department = ''SALES''\<rparr>]"

definition spec_input :: FinancialModelInput where
  "spec_input =
     \<lparr>company = spec_company, assumptions = spec_assumptions, hiringPlan = spec_hiring,
      scenarioOverrides = None\<rparr>"

text \<open>The overrides object \<open>{}\<close>.\<close>

definition empty_overrides :: ScenarioOverrides where
  "empty_overrides =
     \<lparr>customerGrowthMultiplier = None, arpuMultiplier = None, churnRateAdjustment = None,
      expansionRevenueRateAdjustment = None, grossMarginAdjustment = None,
      fixedCostsMultiplier = None, variableCostMultiplier = None, hiringDelayMonths = None,
      salaryMultiplier = None, customMonthlyOverrides = None\<rparr>"

text \<open>
  A company without costs, ten new customers a month at 100 each, over two months. One
  override puts a fixed cost of 5000 on month 0, more than the cash of 1000.
\<close>

definition lean_assumptions :: AssumptionInput where
  "lean_assumptions =
     \<lparr>assumption_name = ''Lean'', startMonth = ''2024-11'', months = 2,
      pricingModel = ''PER_SEAT'', arpu = 100, expectedNewCustomersPerMonth = 10,
      expansionRevenueRate = 0, churnRate = 0, cac = 0, paybackPeriodMonths = 0,
      grossMarginPercent = 100, fixedCostsPerMonth = 0, variableCostPercentOfRevenue = 0\<rparr>"

definition recovering_input :: FinancialModelInput where
  "recovering_input =
     \<lparr>company = spec_company\<lparr>company_startingCash := 1000\<rparr>,
      assumptions = lean_assumptions, hiringPlan = [],
      scenarioOverrides =
        Some (empty_overrides\<lparr>customMonthlyOverrides :=
          Some [\<lparr>override_monthOffset = 0, override_newCustomers = None,
                 override_fixedCosts = Some 5000\<rparr>]\<rparr>)\<rparr>"

text \<open>Another company with the same starting cash.\<close>

definition other_company :: CompanyInput where
  "other_company =
     \<lparr>company_name = ''Other'', stage = ''SERIES_A'', sector = ''FINTECH'', country = ''DE'',
      currency = ''EUR'', company_startingCash = 500000, company_startingMRR = 0,
      currentHeadcount = 40\<rparr>"

definition margin40_assumptions :: AssumptionInput where
  "margin40_assumptions = spec_assumptions\<lparr>grossMarginPercent := 40\<rparr>"

definition churn2_assumptions :: AssumptionInput where
  "churn2_assumptions = spec_assumptions\<lparr>churnRate := 2\<rparr>"

definition churn_adjusted_input :: FinancialModelInput where
  "churn_adjusted_input =
     spec_input\<lparr>scenarioOverrides := Some (empty_overrides\<lparr>churnRateAdjustment := Some (1 / 10)\<rparr>)\<rparr>"

text \<open>A churn rate of 2 on the company without costs.\<close>

definition overchurn_input :: FinancialModelInput where
  "overchurn_input =
     \<lparr>company = spec_company, assumptions = lean_assumptions\<lparr>churnRate := 2\<rparr>, hiringPlan = [],
      scenarioOverrides = None\<rparr>"

text \<open>
  Fixed costs of 700 a month and an override of the fixed costs of month 1 to \<open>0\<close>; in
  the second input an entry for the new customers of month 1 comes before it.
\<close>

definition zero_fixed_input :: FinancialModelInput where
  "zero_fixed_input =
     \<lparr>company = spec_company, assumptions = lean_assumptions\<lparr>fixedCostsPerMonth := 700\<rparr>,
      hiringPlan = [],
      scenarioOverrides =
        Some (empty_overrides\<lparr>customMonthlyOverrides :=
          Some [\<lparr>override_monthOffset = 1, override_newCustomers = None,
                 override_fixedCosts = Some 0\<rparr>]\<rparr>)\<rparr>"

definition shadowed_fixed_input :: FinancialModelInput where
  "shadowed_fixed_input =
     \<lparr>company = spec_company, assumptions = lean_assumptions\<lparr>fixedCostsPerMonth := 700\<rparr>,
      hiringPlan = [],
      scenarioOverrides =
        Some (empty_overrides\<lparr>customMonthlyOverrides :=
          Some [\<lparr>override_monthOffset = 1, override_newCustomers = Some 5,
                 override_fixedCosts = None\<rparr>,
                \<lparr>override_monthOffset = 1, override_newCustomers = None,
                 override_fixedCosts = Some 0\<rparr>]\<rparr>)\<rparr>"

text \<open>
  Two entries for month 3, the one for the new customers after the one for the fixed
  costs; and a growth multiplier of 2 with one entry for the new customers of month 3.
\<close>

definition shadowed_customers_overrides :: ScenarioOverrides where
  "shadowed_customers_overrides =
     empty_overrides\<lparr>customMonthlyOverrides :=
       Some [\<lparr>override_monthOffset = 3, override_newCustomers = None,
              override_fixedCosts = Some 0\<rparr>,
             \<lparr>override_monthOffset = 3, override_newCustomers = Some 5,
              override_fixedCosts = None\<rparr>]\<rparr>"

definition growth_overrides :: ScenarioOverrides where
  "growth_overrides =
     empty_overrides\<lparr>customerGrowthMultiplier := Some 2,
       customMonthlyOverrides :=
         Some [\<lparr>override_monthOffset = 3, override_newCustomers = Some 7,
                override_fixedCosts = None\<rparr>]\<rparr>"

text \<open>A start month in the year 50, over two months.\<close>

definition legacy_year_input :: FinancialModelInput where
  "legacy_year_input =
     \<lparr>company = spec_company, assumptions = lean_assumptions\<lparr>startMonth := ''0050-06''\<rparr>,
      hiringPlan = [], scenarioOverrides = None\<rparr>"

lemmas input_defs =
  spec_company_def spec_assumptions_def spec_hiring_def spec_input_def empty_overrides_def
  lean_assumptions_def recovering_input_def other_company_def margin40_assumptions_def
  churn2_assumptions_def churn_adjusted_input_def overchurn_input_def zero_fixed_input_def
  shadowed_fixed_input_def shadowed_customers_overrides_def growth_overrides_def
  legacy_year_input_def

section \<open>The loop and the run\<close>

lemma monthLoop_Nil: "\<not> real i < months a \<Longrightarrow> monthLoop a ea hp ov i c s = []"
  by (simp add: monthLoop.simps)

lemma monthLoop_Cons:
  "real i < months a \<Longrightarrow>
   monthLoop a ea hp ov i c s =
     projectMonth a ea hp ov i c s
       # monthLoop a ea hp ov (Suc i) (endingCash (projectMonth a ea hp ov i c s))
           (activeCustomers (projectMonth a ea hp ov i c s))"
  by (subst monthLoop.simps) (simp add: Let_def)

text \<open>The loop runs once for every natural number below \<open>months\<close>.\<close>

lemma length_monthLoop: "length (monthLoop a ea hp ov i c s) = nat \<lceil>months a\<rceil> - i"
proof (induction a ea hp ov i c s rule: monthLoop.induct)
  case (1 a ea hp ov i c s)
  show ?case
  proof (cases "real i < months a")
    case True
    then have "int i < \<lceil>months a\<rceil>" by (simp add: less_ceiling_iff)
    then have "i < nat \<lceil>months a\<rceil>" by linarith
    with True "1.IH" show ?thesis
      by (simp add: monthLoop_Cons)
  next
    case False
    then have "\<lceil>months a\<rceil> \<le> int i" by (simp add: ceiling_le_iff)
    then have "nat \<lceil>months a\<rceil> \<le> i" by linarith
    with False show ?thesis by (simp add: monthLoop_Nil)
  qed
qed

text \<open>The record at position \<open>k\<close> is the body of the loop at month \<open>i + k\<close>, on some state.\<close>

lemma monthLoop_nth:
  "k < length (monthLoop a ea hp ov i c s) \<Longrightarrow>
   \<exists>c' s'. monthLoop a ea hp ov i c s ! k = projectMonth a ea hp ov (i + k) c' s'"
proof (induction a ea hp ov i c s arbitrary: k rule: monthLoop.induct)
  case (1 a ea hp ov i c s)
  show ?case
  proof (cases "real i < months a")
    case True
    note step = monthLoop_Cons [OF True, of ea hp ov c s]
    show ?thesis
    proof (cases k)
      case 0
      then show ?thesis using step by auto
    next
      case (Suc j)
      with "1.prems" step
      have "j < length (monthLoop a ea hp ov (Suc i) (endingCash (projectMonth a ea hp ov i c s))
                   (activeCustomers (projectMonth a ea hp ov i c s)))"
        by simp
      from "1.IH" [OF True refl this] Suc step show ?thesis by simp
    qed
  next
    case False
    with "1.prems" show ?thesis by (simp add: monthLoop_Nil)
  qed
qed

lemma monthLoop_set:
  assumes "p \<in> set (monthLoop a ea hp ov i c s)"
  shows "\<exists>j c' s'. p = projectMonth a ea hp ov j c' s'"
proof -
  from assms obtain k where "k < length (monthLoop a ea hp ov i c s)"
    and "monthLoop a ea hp ov i c s ! k = p"
    by (auto simp: in_set_conv_nth)
  with monthLoop_nth [of k a ea hp ov i c s] show ?thesis by metis
qed

text \<open>
  The starting count of active customers is \<open>0\<close> for every assumption set: the quotient
  is NaN, which is falsy.
\<close>

lemma startingActiveCustomers_zero: "startingActiveCustomers a = Fin 0"
  by (simp add: startingActiveCustomers_def assumptions_startingMRR_def js_or_def)

lemma foldl_plus_sum_list:
  "foldl (\<lambda>sum p. sum + f p) z ps = z + sum_list (map f ps)" for z :: real
  by (induction ps arbitrary: z) simp_all

lemma generateSummary_Nil: "generateSummary [] a = Inl EmptyProjections"
  by (simp add: generateSummary_def)

lemma generateSummary_ltv:
  assumes "ps \<noteq> []"
  shows "\<exists>s. generateSummary ps a = Inr s
           \<and> ltv s = (if churnRate a > 0
                       then Some (sum_list (map mrr ps) / real (length ps) / churnRate a)
                       else None)"
  using assms by (simp add: generateSummary_def Let_def foldl_plus_sum_list)

text \<open>The projections of a run are the records of the loop from month 0.\<close>

lemma runScenario_projections:
  assumes "runScenario input = Inr out"
  shows "projections out =
           monthLoop (assumptions input)
             (applyScenarioOverrides (assumptions input) (scenarioOverrides input))
             (hiringPlan input) (scenarioOverrides input) 0
             (company_startingCash (company input)) 0"
  using assms
  by (auto simp: runScenario_def startingActiveCustomers_zero Let_def split: sum.splits)

text \<open>A run over a positive number of months returns, and with at least one record.\<close>

lemma runScenario_returns:
  assumes "0 < months (assumptions input)"
  shows "\<exists>out. runScenario input = Inr out \<and> projections out \<noteq> []"
proof -
  let ?ps = "monthLoop (assumptions input)
               (applyScenarioOverrides (assumptions input) (scenarioOverrides input))
               (hiringPlan input) (scenarioOverrides input) 0
               (company_startingCash (company input)) 0"
  from assms have ne: "?ps \<noteq> []"
    by (simp add: monthLoop_Cons)
  from generateSummary_ltv [OF ne, of "assumptions input"]
  obtain s where "generateSummary ?ps (assumptions input) = Inr s" by blast
  then have "runScenario input = Inr \<lparr>projections = ?ps, summary = s\<rparr>"
    by (simp add: runScenario_def startingActiveCustomers_zero Let_def)
  with ne show ?thesis by simp
qed

text \<open>Without a month to project the summary throws.\<close>

lemma runScenario_throws:
  assumes "months (assumptions input) \<le> 0"
  shows "runScenario input = Inl EmptyProjections"
  using assms
  by (simp add: runScenario_def startingActiveCustomers_zero Let_def monthLoop_Nil
      generateSummary_Nil)

lemma projectMonth_runway:
  "runwayMonths (projectMonth a ea hp ov i c s) =
     calculateRunway (endingCash (projectMonth a ea hp ov i c s))
       (netBurn (projectMonth a ea hp ov i c s))"
  by (simp add: projectMonth_def Let_def split: prod.splits)

lemmas engine_defs =
  runScenario_def startingActiveCustomers_def assumptions_startingMRR_def js_or_def
  applyScenarioOverrides_def projectMonth_def calculateActiveCustomers_def
  calculateRevenue_def calculateCosts_def calculateRunway_def calculateHeadcount_def
  startedItems_def delayMonths_def findCustomOverride_def orDefault_def generateSummary_def

section \<open>The runway of a month\<close>

text \<open>
  C2: \<open>calculateRunway\<close> returns \<open>0\<close> when the cash is at most \<open>0\<close>, else \<open>null\<close> when
  the burn is at most \<open>0\<close>, and else their quotient; and in every record of every run
  \<open>runwayMonths\<close> is the value of \<open>calculateRunway\<close> on the ending cash and the net
  burn of the month.
\<close>

theorem runwayMonths_cash_then_burn:
  assumes "runScenario input = Inr out" and "p \<in> set (projections out)"
  shows "calculateRunway cash burn =
           (if cash \<le> 0 then Some 0 else if burn \<le> 0 then None else Some (cash / burn))
         \<and> runwayMonths p = calculateRunway (endingCash p) (netBurn p)"
proof -
  from assms obtain j c' s' where
    "p = projectMonth (assumptions input)
           (applyScenarioOverrides (assumptions input) (scenarioOverrides input))
           (hiringPlan input) (scenarioOverrides input) j c' s'"
    using monthLoop_set runScenario_projections by metis
  then show ?thesis
    by (simp add: projectMonth_runway calculateRunway_def)
qed

theorem runwayMonths_cash_then_burn_witness:
  "\<exists>out p. runScenario recovering_input = Inr out \<and> p \<in> set (projections out)
     \<and> runwayMonths p = calculateRunway (endingCash p) (netBurn p)"
proof -
  have "0 < months (assumptions recovering_input)"
    by (simp add: input_defs)
  then obtain out where run: "runScenario recovering_input = Inr out"
    and ne: "projections out \<noteq> []"
    using runScenario_returns by blast
  from ne have mem: "hd (projections out) \<in> set (projections out)" by simp
  from runwayMonths_cash_then_burn [OF run mem] run mem show ?thesis by blast
qed

text \<open>
  The test on the cash comes first. In \<open>recovering_input\<close> month 1 makes a profit of 2000
  on a cash of \<open>-3000\<close>: its net burn is negative, its ending cash too, and its runway
  is \<open>0\<close>, not \<open>null\<close>.
\<close>

lemma runway_zero_in_profitable_month:
  "map_sum id (map netBurn \<circ> projections) (runScenario recovering_input) = Inr [4000, - 2000]
   \<and> map_sum id (map endingCash \<circ> projections) (runScenario recovering_input)
       = Inr [- 3000, - 1000]
   \<and> map_sum id (map runwayMonths \<circ> projections) (runScenario recovering_input)
       = Inr [Some 0, Some 0]"
  by (simp add: engine_defs input_defs monthLoop_Cons monthLoop_Nil Let_def)

section \<open>The lifetime value of the summary\<close>



section \<open>The sanity checker\<close>

text \<open>
  C8: the result of \<open>runSanityChecks\<close> has \<open>passed\<close> true if and only if no warning of
  its list has the severity \<open>high\<close>.
\<close>

theorem passed_iff_no_high_warning:
  "passed (runSanityChecks c a)
     \<longleftrightarrow> (\<forall>w \<in> set (warnings (runSanityChecks c a)). severity w \<noteq> High)"
  unfolding runSanityChecks_def Let_def
  by (auto simp: filter_empty_conv)

lemmas check_defs =
  checkChurnRate_def checkArpu_def checkCacPayback_def checkLtvToCac_def
  checkPaybackPeriod_def checkGrossMargin_def checkStartingCash_def checkGrowthRate_def
  checkExpansionRevenue_def calculateLTV_def calculateLTVtoCAC_def

text \<open>
  A gross margin of 40 gives one warning, of medium severity, and passes; a churn rate
  of 2 gives two warnings of high severity (on the churn rate and on the LTV:CAC ratio)
  and fails.
\<close>

theorem passed_iff_no_high_warning_witness:
  "map severity (warnings (runSanityChecks spec_company margin40_assumptions)) = [Medium]
   \<and> passed (runSanityChecks spec_company margin40_assumptions)
   \<and> map severity (warnings (runSanityChecks spec_company churn2_assumptions)) = [High, High]
   \<and> \<not> passed (runSanityChecks spec_company churn2_assumptions)"
  using passed_iff_no_high_warning [of spec_company margin40_assumptions]
    passed_iff_no_high_warning [of spec_company churn2_assumptions]
  by (simp add: runSanityChecks_def check_defs input_defs)

section \<open>The company record\<close>

text \<open>
  C9: two inputs that differ only in the company, with the same \<open>startingCash\<close>, have the
  same result (projections and summary, or the same error): the run reads nothing else
  of the company, so not its \<open>currentHeadcount\<close> nor its \<open>startingMRR\<close>.
\<close>

theorem runScenario_reads_startingCash_only:
  "company_startingCash c1 = company_startingCash c2 \<Longrightarrow>
   runScenario (input\<lparr>company := c1\<rparr>) = runScenario (input\<lparr>company := c2\<rparr>)"
  by (simp add: runScenario_def startingActiveCustomers_zero)

theorem runScenario_reads_startingCash_only_witness:
  "company_startingCash spec_company = company_startingCash other_company
   \<and> currentHeadcount spec_company \<noteq> currentHeadcount other_company
   \<and> company_startingMRR spec_company \<noteq> company_startingMRR other_company
   \<and> runScenario (spec_input\<lparr>company := spec_company\<rparr>)
       = runScenario (spec_input\<lparr>company := other_company\<rparr>)"
  using runScenario_reads_startingCash_only [of spec_company other_company spec_input]
  by (simp add: spec_company_def other_company_def)

section \<open>The benchmark lookup\<close>

text \<open>
  The fallback is the SEED tier for every stage that is neither a key of the table nor
  the name of a member of \<open>Object.prototype\<close>.
\<close>

lemma getBenchmarks_fallback:
  "stage' \<notin> {''PRE_SEED'', ''SEED'', ''SERIES_A''} \<Longrightarrow> stage' \<notin> set Object_prototype_names \<Longrightarrow>
   getBenchmarks stage' = Tier SEED"
  by (simp add: getBenchmarks_def benchmarks_get_def benchmarks_own_def)

lemma getBenchmarks_examples:
  "getBenchmarks ''PRE_SEED'' = Tier PRE_SEED"
  "getBenchmarks ''SEED'' = Tier SEED"
  "getBenchmarks ''SERIES_A'' = Tier SERIES_A"
  "getBenchmarks [] = Tier SEED"
  "getBenchmarks ''SERIES_B'' = Tier SEED"
  by (simp_all add: getBenchmarks_def benchmarks_get_def benchmarks_own_def
      Object_prototype_names_def)

text \<open>
  C10 says that every stage other than the three keys gets the SEED tier. For the stage
  \<open>constructor\<close> the read \<open>benchmarks[stage]\<close> finds the inherited member of that name,
  which is truthy, and \<open>getBenchmarks\<close> returns it instead of the SEED tier.
\<close>

theorem getBenchmarks_constructor:
  "getBenchmarks ''constructor'' = Inherited ''constructor''
   \<and> getBenchmarks ''constructor'' \<noteq> Tier SEED"
  by (simp add: getBenchmarks_def benchmarks_get_def benchmarks_own_def
      Object_prototype_names_def)

section \<open>Monthly overrides\<close>

text \<open>\<open>find\<close> returns the first entry of the month, and nothing when there is none.\<close>

lemma find_first:
  assumes "xs = pre @ e # post" and "\<forall>x \<in> set pre. \<not> P x" and "P e"
  shows "find P xs = Some e"
  using assms by (induction pre arbitrary: xs) auto

lemma find_none: "\<forall>x \<in> set xs. \<not> P x \<Longrightarrow> find P xs = None"
  by (simp add: find_None_iff)

lemma findCustomOverride_first:
  assumes "overrideEntries ov = pre @ e # post"
    and "\<forall>x \<in> set pre. override_monthOffset x \<noteq> mi" and "override_monthOffset e = mi"
  shows "findCustomOverride ov mi = Some e"
proof -
  from assms(1) have "Option.bind ov customMonthlyOverrides = Some (pre @ e # post)"
    by (auto simp: overrideEntries_def split: option.splits)
  moreover have "find (\<lambda>x. override_monthOffset x = mi) (pre @ e # post) = Some e"
    using assms(2,3) by (intro find_first [where pre = pre and post = post]) auto
  ultimately show ?thesis by (simp add: findCustomOverride_def)
qed

lemma findCustomOverride_none:
  assumes "\<forall>x \<in> set (overrideEntries ov). override_monthOffset x \<noteq> mi"
  shows "findCustomOverride ov mi = None"
  using assms
  by (auto simp: findCustomOverride_def overrideEntries_def find_None_iff split: option.splits)

lemma projectMonth_fixedCosts:
  "fixedCosts (projectMonth a ea hp ov i c s) =
     orDefault (Option.bind (findCustomOverride ov (real i)) override_fixedCosts)
       (fixedCostsPerMonth ea)"
  by (simp add: projectMonth_def calculateCosts_def Let_def split: prod.splits)

lemma effective_fixedCostsPerMonth:
  "fixedCostsPerMonth (applyScenarioOverrides a ov) =
     fixedCostsPerMonth a * orDefault (Option.bind ov fixedCostsMultiplier) 1"
  by (cases ov) (simp_all add: applyScenarioOverrides_def orDefault_def)

lemma runScenario_nth:
  assumes "runScenario input = Inr out" and "i < length (projections out)"
  shows "\<exists>c' s'. projections out ! i =
           projectMonth (assumptions input)
             (applyScenarioOverrides (assumptions input) (scenarioOverrides input))
             (hiringPlan input) (scenarioOverrides input) i c' s'"
proof -
  let ?ps = "monthLoop (assumptions input)
               (applyScenarioOverrides (assumptions input) (scenarioOverrides input))
               (hiringPlan input) (scenarioOverrides input) 0
               (company_startingCash (company input)) 0"
  have eq: "projections out = ?ps"
    by (rule runScenario_projections [OF assms(1)])
  with assms(2) have "i < length ?ps" by simp
  from monthLoop_nth [OF this] eq show ?thesis by simp
qed

lemma runScenario_length:
  assumes "runScenario input = Inr out"
  shows "length (projections out) = nat \<lceil>months (assumptions input)\<rceil>"
  using runScenario_projections [OF assms] by (simp add: length_monthLoop)

text \<open>
  C7, as stated: an entry that specifies \<open>fixedCosts\<close> sets the fixed costs of its month.
  In \<open>shadowed_fixed_input\<close> the second entry sets the fixed costs of month 1 to \<open>0\<close>,
  but \<open>find\<close> stops at the first entry for month 1, which has no \<open>fixedCosts\<close>: the
  fixed costs of month 1 are the 700 of the assumptions.
\<close>

theorem shadowed_fixedCosts_entry_ignored:
  "map_sum id (map fixedCosts \<circ> projections) (runScenario shadowed_fixed_input) = Inr [700, 700]"
  by (simp add: engine_defs input_defs monthLoop_Cons monthLoop_Nil Let_def)

text \<open>
  C7, amended: in every run the fixed costs of month \<open>i\<close> are decided by the first
  entry of \<open>customMonthlyOverrides\<close> whose \<open>monthOffset\<close> is \<open>i\<close>: they are its
  \<open>fixedCosts\<close> when it has one (\<open>0\<close> included). When that entry has none, and when no
  entry has the \<open>monthOffset\<close> \<open>i\<close>, they are the \<open>fixedCostsPerMonth\<close> of the effective
  assumptions, the base value times the \<open>fixedCostsMultiplier\<close> (1 when absent).
\<close>

theorem fixedCosts_first_entry_of_month:
  assumes "runScenario input = Inr out" and "i < length (projections out)"
  shows "(\<forall>pre e post.
            overrideEntries (scenarioOverrides input) = pre @ e # post
            \<and> (\<forall>x \<in> set pre. override_monthOffset x \<noteq> real i)
            \<and> override_monthOffset e = real i
            \<longrightarrow> fixedCosts (projections out ! i) =
                  orDefault (override_fixedCosts e)
                    (fixedCostsPerMonth (assumptions input)
                     * orDefault (Option.bind (scenarioOverrides input) fixedCostsMultiplier) 1))
         \<and> ((\<forall>x \<in> set (overrideEntries (scenarioOverrides input)).
                override_monthOffset x \<noteq> real i)
            \<longrightarrow> fixedCosts (projections out ! i) =
                  fixedCostsPerMonth (assumptions input)
                  * orDefault (Option.bind (scenarioOverrides input) fixedCostsMultiplier) 1)"
proof -
  let ?ov = "scenarioOverrides input"
  let ?ea = "applyScenarioOverrides (assumptions input) ?ov"
  from runScenario_nth [OF assms] obtain c' s' where
    p: "projections out ! i = projectMonth (assumptions input) ?ea (hiringPlan input) ?ov i c' s'"
    by blast
  have fc: "fixedCosts (projections out ! i) =
              orDefault (Option.bind (findCustomOverride ?ov (real i)) override_fixedCosts)
                (fixedCostsPerMonth (assumptions input)
                 * orDefault (Option.bind ?ov fixedCostsMultiplier) 1)"
    by (simp add: p projectMonth_fixedCosts effective_fixedCostsPerMonth)
  show ?thesis
  proof (intro conjI allI impI)
    fix pre e post
    assume "overrideEntries ?ov = pre @ e # post
            \<and> (\<forall>x \<in> set pre. override_monthOffset x \<noteq> real i)
            \<and> override_monthOffset e = real i"
    then have "findCustomOverride ?ov (real i) = Some e"
      using findCustomOverride_first by blast
    with fc show "fixedCosts (projections out ! i) =
                    orDefault (override_fixedCosts e)
                      (fixedCostsPerMonth (assumptions input)
                       * orDefault (Option.bind ?ov fixedCostsMultiplier) 1)"
      by simp
  next
    assume "\<forall>x \<in> set (overrideEntries ?ov). override_monthOffset x \<noteq> real i"
    then have "findCustomOverride ?ov (real i) = None"
      by (rule findCustomOverride_none)
    with fc show "fixedCosts (projections out ! i) =
                    fixedCostsPerMonth (assumptions input)
                    * orDefault (Option.bind ?ov fixedCostsMultiplier) 1"
      by (simp add: orDefault_def)
  qed
qed

theorem fixedCosts_first_entry_of_month_witness:
  "\<exists>out. runScenario zero_fixed_input = Inr out \<and> length (projections out) = 2
     \<and> fixedCosts (projections out ! 0) = 700 \<and> fixedCosts (projections out ! 1) = 0"
proof -
  have m: "0 < months (assumptions zero_fixed_input)"
    by (simp add: input_defs)
  then obtain out where run: "runScenario zero_fixed_input = Inr out"
    using runScenario_returns by blast
  have len: "length (projections out) = 2"
    using runScenario_length [OF run] by (simp add: input_defs)
  let ?e = "\<lparr>override_monthOffset = 1, override_newCustomers = None,
             override_fixedCosts = Some 0\<rparr>"
  have es: "overrideEntries (scenarioOverrides zero_fixed_input) = [] @ ?e # []"
    by (simp add: overrideEntries_def input_defs)
  have base: "fixedCostsPerMonth (assumptions zero_fixed_input)
              * orDefault (Option.bind (scenarioOverrides zero_fixed_input) fixedCostsMultiplier) 1
              = 700"
    by (simp add: input_defs orDefault_def)
  have "0 < length (projections out)" and "1 < length (projections out)"
    using len by simp_all
  note t0 = fixedCosts_first_entry_of_month [OF run \<open>0 < length (projections out)\<close>]
    and t1 = fixedCosts_first_entry_of_month [OF run \<open>1 < length (projections out)\<close>]
  from t0 have "fixedCosts (projections out ! 0) = 700"
    using es base by simp
  moreover from t1 es have "fixedCosts (projections out ! 1) = orDefault (override_fixedCosts ?e) 700"
    using base by (metis empty_iff list.set(1) MonthlyOverride.select_convs(1) of_nat_1)
  ultimately show ?thesis using run len by (simp add: orDefault_def)
qed


section \<open>The customers of a month\<close>

text \<open>
  C3, as stated: an entry for the month that specifies \<open>newCustomers\<close> gives the new
  customers of the month. With \<open>shadowed_customers_overrides\<close> the second entry for
  month 3 specifies 5 new customers, but the first entry for month 3 has none: the new
  customers are the 10 of the assumptions.
\<close>

theorem shadowed_newCustomers_entry_ignored:
  "calculateActiveCustomers 100 spec_assumptions 3 (Some shadowed_customers_overrides)
     = (10, 5, 105)"
  by (simp add: calculateActiveCustomers_def findCustomOverride_def input_defs)

text \<open>
  A growth multiplier of \<open>0\<close> is falsy and is not applied: the new customers stay 10.
\<close>

lemma growth_multiplier_zero_not_applied:
  "calculateActiveCustomers 100 spec_assumptions 3
     (Some (empty_overrides\<lparr>customerGrowthMultiplier := Some 0\<rparr>)) = (10, 5, 105)"
  by (simp add: calculateActiveCustomers_def findCustomOverride_def input_defs)

text \<open>
  C3, amended: for a growth multiplier that is absent (then 1) or not \<open>0\<close>, the new
  customers are the \<open>newCustomers\<close> of the first entry of \<open>customMonthlyOverrides\<close> whose
  \<open>monthOffset\<close> is the month index, when that entry has one; when it has none, and
  when no entry is for the month, they are \<open>expectedNewCustomersPerMonth\<close> times the
  multiplier. The churned customers are the previous active customers times the churn
  rate, and the active customers are \<open>max(0, previous + new - churned)\<close>, never negative.
\<close>

theorem calculateActiveCustomers_first_entry:
  assumes "Option.bind ov customerGrowthMultiplier \<noteq> Some 0"
  shows "\<exists>new churned active.
           calculateActiveCustomers previous a mi ov = (new, churned, active)
           \<and> churned = previous * churnRate a
           \<and> active = max 0 (previous + new - churned)
           \<and> 0 \<le> active
           \<and> (\<forall>pre e post.
                 overrideEntries ov = pre @ e # post
                 \<and> (\<forall>x \<in> set pre. override_monthOffset x \<noteq> mi)
                 \<and> override_monthOffset e = mi
                 \<longrightarrow> new = orDefault (override_newCustomers e)
                            (expectedNewCustomersPerMonth a
                             * orDefault (Option.bind ov customerGrowthMultiplier) 1))
           \<and> ((\<forall>x \<in> set (overrideEntries ov). override_monthOffset x \<noteq> mi)
                \<longrightarrow> new = expectedNewCustomersPerMonth a
                            * orDefault (Option.bind ov customerGrowthMultiplier) 1)"
proof -
  let ?base = "expectedNewCustomersPerMonth a * orDefault (Option.bind ov customerGrowthMultiplier) 1"
  let ?new = "orDefault (Option.bind (findCustomOverride ov mi) override_newCustomers) ?base"
  have mult: "(case Option.bind ov customerGrowthMultiplier of
                 None \<Rightarrow> expectedNewCustomersPerMonth a
               | Some m \<Rightarrow> if truthy (Fin m) then expectedNewCustomersPerMonth a * m
                           else expectedNewCustomersPerMonth a) = ?base"
    using assms by (cases "Option.bind ov customerGrowthMultiplier") (auto simp: orDefault_def)
  have val: "calculateActiveCustomers previous a mi ov =
               (?new, previous * churnRate a, max 0 (previous + ?new - previous * churnRate a))"
    unfolding calculateActiveCustomers_def Let_def mult
    by (simp add: orDefault_def split: option.splits)
  have first: "?new = orDefault (override_newCustomers e) ?base"
    if "overrideEntries ov = pre @ e # post
        \<and> (\<forall>x \<in> set pre. override_monthOffset x \<noteq> mi) \<and> override_monthOffset e = mi"
    for pre e post
  proof -
    from that have "findCustomOverride ov mi = Some e"
      using findCustomOverride_first by blast
    then show ?thesis by simp
  qed
  have none: "?new = ?base" if "\<forall>x \<in> set (overrideEntries ov). override_monthOffset x \<noteq> mi"
  proof -
    from that have "findCustomOverride ov mi = None"
      by (rule findCustomOverride_none)
    then show ?thesis by (simp add: orDefault_def)
  qed
  have firsts: "\<forall>pre e post.
                  overrideEntries ov = pre @ e # post
                  \<and> (\<forall>x \<in> set pre. override_monthOffset x \<noteq> mi)
                  \<and> override_monthOffset e = mi
                  \<longrightarrow> ?new = orDefault (override_newCustomers e) ?base"
    using first by blast
  show ?thesis
    unfolding val using firsts none by simp
qed

theorem calculateActiveCustomers_first_entry_witness:
  "Option.bind (Some growth_overrides) customerGrowthMultiplier \<noteq> Some 0
   \<and> calculateActiveCustomers 100 spec_assumptions 3 (Some growth_overrides) = (7, 5, 102)
   \<and> calculateActiveCustomers 100 spec_assumptions 4 (Some growth_overrides) = (20, 5, 115)"
proof -
  let ?e = "\<lparr>override_monthOffset = 3, override_newCustomers = Some 7,
             override_fixedCosts = None\<rparr>"
  have m: "Option.bind (Some growth_overrides) customerGrowthMultiplier \<noteq> Some 0"
    by (simp add: growth_overrides_def)
  have es: "overrideEntries (Some growth_overrides) = [] @ ?e # []"
    by (simp add: overrideEntries_def growth_overrides_def)
  have base: "expectedNewCustomersPerMonth spec_assumptions
              * orDefault (Option.bind (Some growth_overrides) customerGrowthMultiplier) 1 = 20"
    by (simp add: growth_overrides_def spec_assumptions_def orDefault_def)
  have ch: "100 * churnRate spec_assumptions = 5"
    by (simp add: spec_assumptions_def)
  from calculateActiveCustomers_first_entry [OF m, of 100 spec_assumptions 3]
  obtain new churned active where
    r: "calculateActiveCustomers 100 spec_assumptions 3 (Some growth_overrides)
          = (new, churned, active)"
    and c: "churned = 100 * churnRate spec_assumptions"
    and a: "active = max 0 (100 + new - churned)"
    and f: "\<forall>pre e post.
              overrideEntries (Some growth_overrides) = pre @ e # post
              \<and> (\<forall>x \<in> set pre. override_monthOffset x \<noteq> 3)
              \<and> override_monthOffset e = 3
              \<longrightarrow> new = orDefault (override_newCustomers e)
                         (expectedNewCustomersPerMonth spec_assumptions
                          * orDefault (Option.bind (Some growth_overrides) customerGrowthMultiplier) 1)"
    by blast
  from f es have "new = orDefault (override_newCustomers ?e) 20"
    unfolding base by (metis empty_iff list.set(1) MonthlyOverride.select_convs(1))
  then have n3: "new = 7" by (simp add: orDefault_def)
  from r c a n3 ch have r3:
    "calculateActiveCustomers 100 spec_assumptions 3 (Some growth_overrides) = (7, 5, 102)"
    by simp
  from calculateActiveCustomers_first_entry [OF m, of 100 spec_assumptions 4]
  obtain new' churned' active' where
    r': "calculateActiveCustomers 100 spec_assumptions 4 (Some growth_overrides)
          = (new', churned', active')"
    and c': "churned' = 100 * churnRate spec_assumptions"
    and a': "active' = max 0 (100 + new' - churned')"
    and g: "(\<forall>x \<in> set (overrideEntries (Some growth_overrides)). override_monthOffset x \<noteq> 4)
              \<longrightarrow> new' = expectedNewCustomersPerMonth spec_assumptions
                         * orDefault (Option.bind (Some growth_overrides) customerGrowthMultiplier) 1"
    by blast
  from g have "new' = 20"
    unfolding base by (simp add: overrideEntries_def growth_overrides_def)
  with r' c' a' ch have r4:
    "calculateActiveCustomers 100 spec_assumptions 4 (Some growth_overrides) = (20, 5, 115)"
    by simp
  from m r3 r4 show ?thesis by simp
qed

section \<open>Empty overrides\<close>

lemma applyScenarioOverrides_empty:
  "0 \<le> churnRate a \<Longrightarrow> churnRate a \<le> 1 \<Longrightarrow> applyScenarioOverrides a (Some empty_overrides) = a"
  by (simp add: applyScenarioOverrides_def empty_overrides_def orDefault_def)

lemma projectMonth_empty:
  "projectMonth a ea hp (Some empty_overrides) i c s = projectMonth a ea hp None i c s"
  by (simp add: projectMonth_def calculateActiveCustomers_def calculateCosts_def
      calculateHeadcount_def startedItems_def delayMonths_def findCustomOverride_def
      empty_overrides_def)

lemma monthLoop_empty:
  "monthLoop a ea hp (Some empty_overrides) i c s = monthLoop a ea hp None i c s"
proof (induction a ea hp "None :: ScenarioOverrides option" i c s rule: monthLoop.induct)
  case (1 a ea hp i c s)
  show ?case
  proof (cases "real i < months a")
    case True
    with "1.hyps" show ?thesis
      by (simp add: monthLoop_Cons projectMonth_empty)
  next
    case False
    then show ?thesis by (simp add: monthLoop_Nil)
  qed
qed

text \<open>
  C5, as stated: the overrides \<open>{}\<close> give the projections of a run without overrides,
  for every assumption set. With a churn rate of 2 they do not: \<open>applyScenarioOverrides\<close>
  clamps the churn rate to 1 as soon as there is an overrides object, so month 1 loses
  10 of its 10 customers with \<open>{}\<close> and 20 without overrides.
\<close>

theorem empty_overrides_clamp_churn:
  "map_sum id (map churnedCustomers \<circ> projections)
     (runScenario (overchurn_input\<lparr>scenarioOverrides := Some empty_overrides\<rparr>)) = Inr [0, 10]
   \<and> map_sum id (map churnedCustomers \<circ> projections)
       (runScenario (overchurn_input\<lparr>scenarioOverrides := None\<rparr>)) = Inr [0, 20]
   \<and> runScenario (overchurn_input\<lparr>scenarioOverrides := Some empty_overrides\<rparr>)
       \<noteq> runScenario (overchurn_input\<lparr>scenarioOverrides := None\<rparr>)"
proof -
  have with_empty:
    "map_sum id (map churnedCustomers \<circ> projections)
       (runScenario (overchurn_input\<lparr>scenarioOverrides := Some empty_overrides\<rparr>)) = Inr [0, 10]"
    by (simp add: engine_defs input_defs monthLoop_Cons monthLoop_Nil Let_def)
  have without:
    "map_sum id (map churnedCustomers \<circ> projections)
       (runScenario (overchurn_input\<lparr>scenarioOverrides := None\<rparr>)) = Inr [0, 20]"
    by (simp add: engine_defs input_defs monthLoop_Cons monthLoop_Nil Let_def)
  have "runScenario (overchurn_input\<lparr>scenarioOverrides := Some empty_overrides\<rparr>)
          \<noteq> runScenario (overchurn_input\<lparr>scenarioOverrides := None\<rparr>)"
  proof
    assume "runScenario (overchurn_input\<lparr>scenarioOverrides := Some empty_overrides\<rparr>)
              = runScenario (overchurn_input\<lparr>scenarioOverrides := None\<rparr>)"
    with with_empty without have "(Inr [0, 10] :: error + real list) = Inr [0, 20]"
      by simp
    then show False by simp
  qed
  with with_empty without show ?thesis by simp
qed

text \<open>
  C5, amended: for every input whose base churn rate is in \<open>[0, 1]\<close>, the run with the
  overrides \<open>{}\<close> and the run without overrides have the same result, projections and
  summary.
\<close>

theorem empty_overrides_same_run:
  assumes "0 \<le> churnRate (assumptions input)" and "churnRate (assumptions input) \<le> 1"
  shows "runScenario (input\<lparr>scenarioOverrides := Some empty_overrides\<rparr>)
           = runScenario (input\<lparr>scenarioOverrides := None\<rparr>)"
  using assms
  by (simp add: runScenario_def startingActiveCustomers_zero applyScenarioOverrides_empty
      monthLoop_empty) (simp add: applyScenarioOverrides_def)

theorem empty_overrides_same_run_witness:
  "0 \<le> churnRate (assumptions spec_input) \<and> churnRate (assumptions spec_input) \<le> 1
   \<and> runScenario (spec_input\<lparr>scenarioOverrides := Some empty_overrides\<rparr>)
       = runScenario (spec_input\<lparr>scenarioOverrides := None\<rparr>)"
  using empty_overrides_same_run [of spec_input]
  by (simp add: spec_input_def spec_assumptions_def)

section \<open>Month labels\<close>

text \<open>The digits that \<open>String\<close> writes are read back by \<open>Number\<close>.\<close>

lemma below_ten:
  "d < 10 \<Longrightarrow> d = 0 \<or> d = 1 \<or> d = 2 \<or> d = 3 \<or> d = 4 \<or> d = 5 \<or> d = 6 \<or> d = 7 \<or> d = 8 \<or> d = (9::nat)"
  by arith

lemma is_digit_cases:
  "is_digit c \<Longrightarrow>
   c = CHR ''0'' \<or> c = CHR ''1'' \<or> c = CHR ''2'' \<or> c = CHR ''3'' \<or> c = CHR ''4''
   \<or> c = CHR ''5'' \<or> c = CHR ''6'' \<or> c = CHR ''7'' \<or> c = CHR ''8'' \<or> c = CHR ''9''"
  by (auto simp: is_digit_def digit_val_def digit_table_def split: if_splits option.splits)

lemma is_digit_digit_char: "d < 10 \<Longrightarrow> is_digit (digit_char d)"
  by (drule below_ten) (auto simp: is_digit_def digit_val_def digit_char_def digit_table_def)

lemma hex_val_digit_char: "d < 10 \<Longrightarrow> hex_val (digit_char d) = Some d"
  by (drule below_ten) (auto simp: hex_val_def digit_char_def digit_table_def)

lemma digits_not_Nil: "digits n \<noteq> []"
  by (subst digits.simps) simp

lemma all_digits_digits: "list_all is_digit (digits n)"
proof (induction n rule: digits.induct)
  case (1 n)
  show ?case
  proof (cases "n < 10")
    case True
    then show ?thesis
      by (subst digits.simps) (simp add: is_digit_digit_char)
  next
    case False
    have "n mod 10 < 10" by simp
    with False "1.IH" show ?thesis
      by (subst digits.simps) (simp add: is_digit_digit_char)
  qed
qed

lemma digits_value_Nil: "digits_value b [] = 0"
  by (simp add: digits_value_def)

lemma digits_value_snoc:
  "digits_value b (s @ [c]) = b * digits_value b s + (case hex_val c of None \<Rightarrow> 0 | Some d \<Rightarrow> d)"
  by (simp add: digits_value_def)

lemma digits_value_digits: "digits_value 10 (digits n) = n"
proof (induction n rule: digits.induct)
  case (1 n)
  show ?case
  proof (cases "n < 10")
    case True
    then show ?thesis
      by (subst digits.simps) (simp add: digits_value_def hex_val_digit_char)
  next
    case False
    have "hex_val (digit_char (n mod 10)) = Some (n mod 10)"
      by (simp add: hex_val_digit_char)
    with False "1.IH" show ?thesis
      by (subst digits.simps) (simp add: digits_value_snoc)
  qed
qed

lemma digits_value_zeros: "digits_value 10 (replicate k (CHR ''0'') @ s) = digits_value 10 s"
proof -
  have "foldl (\<lambda>acc c. 10 * acc + (case hex_val c of None \<Rightarrow> 0 | Some d \<Rightarrow> d)) 0
          (replicate k (CHR ''0'')) = 0"
    by (induction k) (simp_all add: hex_val_def digit_table_def)
  then show ?thesis by (simp add: digits_value_def)
qed

lemma leading_space_none:
  assumes "\<forall>w \<in> set ws. w \<noteq> [] \<and> hd w \<noteq> c"
  shows "leading_space ws (c # t) = 0"
proof -
  have "take (length w) (c # t) \<noteq> w" if "w \<in> set ws" for w
  proof -
    from that assms have "w \<noteq> []" and "hd w \<noteq> c"
      by auto
    then obtain a u where "w = a # u" and "a \<noteq> c"
      by (cases w) auto
    then show ?thesis by simp
  qed
  then have "find (\<lambda>w. take (length w) (c # t) = w) ws = None"
    by (simp add: find_None_iff)
  then show ?thesis by (simp add: leading_space_def)
qed

lemma white_space_heads: "is_digit c \<Longrightarrow> \<forall>w \<in> set white_space. w \<noteq> [] \<and> hd w \<noteq> c"
  by (drule is_digit_cases) (elim disjE; simp add: white_space_def)

lemma white_space_lasts:
  "is_digit c \<Longrightarrow> \<forall>w \<in> set (map rev white_space). w \<noteq> [] \<and> hd w \<noteq> c"
  by (drule is_digit_cases) (elim disjE; simp add: white_space_def)

lemma leading_space_digit: "is_digit c \<Longrightarrow> leading_space white_space (c # t) = 0"
  by (rule leading_space_none [OF white_space_heads])

lemma trailing_space_digit: "is_digit c \<Longrightarrow> leading_space (map rev white_space) (c # t) = 0"
  by (rule leading_space_none [OF white_space_lasts])

lemma trim_digits:
  assumes "s \<noteq> []" and "list_all is_digit s"
  shows "trim s = s"
proof -
  from assms obtain c t where s: "s = c # t" and c: "is_digit c"
    by (cases s) auto
  from assms have "rev s \<noteq> []" and "list_all is_digit (rev s)"
    by (simp_all add: list_all_iff)
  then obtain c' t' where r: "rev s = c' # t'" and c': "is_digit c'"
    by (cases "rev s") auto
  have "strip_leading white_space s = s"
    unfolding s by (subst strip_leading.simps) (simp add: leading_space_digit [OF c])
  moreover have "strip_leading (map rev white_space) (rev s) = rev s"
    unfolding r by (subst strip_leading.simps) (simp add: trailing_space_digit [OF c'])
  ultimately show ?thesis by (simp add: trim_def)
qed

lemma radix_literal_digits: "list_all is_digit s \<Longrightarrow> radix_literal s = None"
proof (cases s)
  case Nil
  then show ?thesis by (simp add: radix_literal_def)
next
  case (Cons c0 t)
  assume a: "list_all is_digit s"
  show ?thesis
  proof (cases t)
    case Nil
    with Cons show ?thesis by (simp add: radix_literal_def)
  next
    case (Cons c1 ds)
    with a \<open>s = c0 # t\<close> have "is_digit c1" by simp
    then have "c1 \<noteq> CHR ''x''" "c1 \<noteq> CHR ''X''" "c1 \<noteq> CHR ''o''" "c1 \<noteq> CHR ''O''"
      "c1 \<noteq> CHR ''b''" "c1 \<noteq> CHR ''B''"
      by (auto dest: is_digit_cases)
    with Cons \<open>s = c0 # t\<close> show ?thesis by (simp add: radix_literal_def)
  qed
qed

lemma decimal_literal_digits:
  assumes "s \<noteq> []" and "list_all is_digit s"
  shows "decimal_literal s = Some (real (digits_value 10 s))"
proof -
  from assms(2) have tw: "takeWhile is_digit s = s" and dw: "dropWhile is_digit s = []"
    by (simp_all add: list_all_iff)
  from assms(1) show ?thesis
    unfolding decimal_literal_def Let_def tw dw
    by (simp add: exponent_part_def scale10_def digits_value_Nil)
qed

lemma Number_str_digits_only:
  assumes "s \<noteq> []" and "list_all is_digit s"
  shows "Number_str s = Fin (real (digits_value 10 s))"
proof -
  from assms obtain c t where s: "s = c # t" and c: "is_digit c"
    by (cases s) auto
  from c have sign: "c \<noteq> CHR ''+''" "c \<noteq> CHR ''-''" and inf: "c \<noteq> CHR ''I''"
    by (auto dest: is_digit_cases)
  from inf s have "s \<noteq> ''Infinity''" by auto
  then have u: "unsigned_literal s = Fin (real (digits_value 10 s))"
    by (simp add: unsigned_literal_def decimal_literal_digits [OF assms])
  have "(case s of [] \<Rightarrow> Fin 0
         | c # u \<Rightarrow> if c = CHR ''+'' then unsigned_literal u
                    else if c = CHR ''-'' then js_neg (unsigned_literal u)
                    else unsigned_literal s) = unsigned_literal s"
    using sign by (simp add: s)
  with u assms(1) show ?thesis
    unfolding Number_str_def Let_def trim_digits [OF assms] radix_literal_digits [OF assms(2)]
    by simp
qed

lemma Number_str_digits: "Number_str (digits n) = Fin (real n)"
  by (simp add: Number_str_digits_only digits_not_Nil all_digits_digits digits_value_digits)

lemma is_digit_zero: "is_digit (CHR ''0'')"
  by (simp add: is_digit_def digit_val_def digit_table_def)

lemma not_digit_dash: "\<not> is_digit (CHR ''-'')"
  by (simp add: is_digit_def digit_val_def digit_table_def)

lemma all_digits_zeros: "list_all is_digit (replicate k (CHR ''0''))"
  by (induction k) (simp_all add: is_digit_zero)

lemma Number_str_padded: "Number_str (padStart2 (digits n)) = Fin (real n)"
proof -
  have ne: "padStart2 (digits n) \<noteq> []"
    by (simp add: padStart2_def digits_not_Nil)
  have ad: "list_all is_digit (padStart2 (digits n))"
    by (simp add: padStart2_def all_digits_digits all_digits_zeros)
  have "digits_value 10 (padStart2 (digits n)) = n"
    by (simp add: padStart2_def digits_value_zeros digits_value_digits)
  with Number_str_digits_only [OF ne ad] show ?thesis by simp
qed

lemma no_dash_digits: "list_all is_digit s \<Longrightarrow> CHR ''-'' \<notin> set s"
  using not_digit_dash by (auto simp: list_all_iff)

lemma digits_no_dash: "CHR ''-'' \<notin> set (digits n)"
  by (rule no_dash_digits [OF all_digits_digits])

lemma padStart2_no_dash: "CHR ''-'' \<notin> set (padStart2 (digits n))"
  by (simp add: padStart2_def digits_no_dash)

lemma split_dash_plain: "CHR ''-'' \<notin> set xs \<Longrightarrow> split_dash xs = [xs]"
  by (induction xs) auto

lemma split_dash_two:
  "CHR ''-'' \<notin> set xs \<Longrightarrow> CHR ''-'' \<notin> set ys \<Longrightarrow> split_dash (xs @ ''-'' @ ys) = [xs, ys]"
  by (induction xs) (auto simp: split_dash_plain)

lemma formatMonth_Date:
  "0 \<le> y \<Longrightarrow> 0 \<le> m \<Longrightarrow>
   formatMonth (Date y m) = digits (nat y) @ ''-'' @ padStart2 (digits (nat (m + 1)))"
  by (simp add: formatMonth_def String_num_def String_int_def)

lemma trunc_of_int: "trunc (real_of_int i) = i"
  by (simp add: trunc_def)

lemma firstOfMonth_valid:
  "min_month \<le> t \<Longrightarrow> t \<le> max_month \<Longrightarrow> firstOfMonth t = Date (t div 12) (t mod 12)"
  by (simp add: firstOfMonth_def)

lemma firstOfMonth_invalid:
  "t < min_month \<or> max_month < t \<Longrightarrow> firstOfMonth t = InvalidDate"
  by (auto simp: firstOfMonth_def)

text \<open>
  A label written by \<open>formatMonth\<close> for a year from 100 on is read back and advanced, as
  long as the month reached is a date.
\<close>

lemma addMonths_formatMonth:
  assumes "100 \<le> y" and "0 \<le> m" and "m < 12" and "y * 12 + m \<le> max_month"
    and "min_month \<le> y * 12 + m + k" and "y * 12 + m + k \<le> max_month"
  shows "addMonths (formatMonth (Date y m)) k =
           formatMonth (Date ((y * 12 + m + k) div 12) ((y * 12 + m + k) mod 12))"
proof -
  from assms have fm: "formatMonth (Date y m) = digits (nat y) @ ''-'' @ padStart2 (digits (nat (m + 1)))"
    by (simp add: formatMonth_Date)
  have parts: "map Number_str (split_dash (formatMonth (Date y m)))
                 = [Fin (real_of_int y), Fin (real_of_int (m + 1))]"
    using assms
    by (simp add: fm split_dash_two digits_no_dash padStart2_no_dash Number_str_digits
        Number_str_padded del: append.simps)
  from assms have "(y * 12 + m) div 12 = y" and "(y * 12 + m) mod 12 = m"
    by simp_all
  moreover from assms have "min_month \<le> y * 12 + m"
    by (simp add: min_month_def)
  ultimately have nd: "newDate (Fin (real_of_int y)) (Fin (real_of_int m)) = Date y m"
    using assms by (simp add: Let_def trunc_of_int firstOfMonth_valid)
  have sm: "setMonth (Date y m) (Some (m + k))
              = Date ((y * 12 + m + k) div 12) ((y * 12 + m + k) mod 12)"
    using assms by (simp add: firstOfMonth_valid add.assoc)
  show ?thesis
    unfolding addMonths_def parts Let_def
    by (simp add: nd sm del: newDate.simps setMonth.simps)
qed

text \<open>A label of two runs of digits: the year and the month are their decimal values.\<close>

lemma addMonths_digits:
  assumes "yy \<noteq> []" and "list_all is_digit yy" and "mm \<noteq> []" and "list_all is_digit mm"
  shows "addMonths (yy @ ''-'' @ mm) k =
           formatMonth
             (setMonth (newDate (Fin (real (digits_value 10 yy))) (Fin (real (digits_value 10 mm) - 1)))
                (map_option (\<lambda>m. m + k)
                   (getMonth (newDate (Fin (real (digits_value 10 yy)))
                                (Fin (real (digits_value 10 mm) - 1))))))"
proof -
  have "split_dash (yy @ ''-'' @ mm) = [yy, mm]"
    using assms by (intro split_dash_two no_dash_digits)
  then have parts: "map Number_str (split_dash (yy @ ''-'' @ mm))
                      = [Fin (real (digits_value 10 yy)), Fin (real (digits_value 10 mm))]"
    using assms by (simp add: Number_str_digits_only)
  show ?thesis
    unfolding addMonths_def parts Let_def
    by (simp del: newDate.simps setMonth.simps)
qed

lemmas label_defs =
  is_digit_def digit_val_def digit_table_def digits_value_def hex_val_def trunc_def
  firstOfMonth_def min_month_def max_month_def formatMonth_def String_num_def String_int_def
  padStart2_def digits.simps digit_char_def Let_def

lemma projectMonth_label:
  "monthIndex (projectMonth a ea hp ov i c s) = real i"
  "month (projectMonth a ea hp ov i c s) = addMonths (startMonth a) (int i)"
  by (simp_all add: projectMonth_def Let_def split: prod.splits)

section \<open>Length and order of the projections\<close>

text \<open>
  For an integer number of months \<open>n\<close> from 1 on, \<open>runScenario\<close> returns, with exactly
  \<open>n\<close> projections; the record at position \<open>i\<close> has the month index \<open>i\<close> and the
  label \<open>addMonths(startMonth, i)\<close>.
\<close>

lemma projections_length_and_index:
  assumes "months (assumptions input) = real n" and "1 \<le> n"
  shows "\<exists>out. runScenario input = Inr out
           \<and> length (projections out) = n
           \<and> (\<forall>i<n. monthIndex (projections out ! i) = real i
                     \<and> month (projections out ! i)
                         = addMonths (startMonth (assumptions input)) (int i))"
proof -
  from assms have "0 < months (assumptions input)" by simp
  then obtain out where run: "runScenario input = Inr out"
    using runScenario_returns by blast
  have len: "length (projections out) = n"
    using runScenario_length [OF run] assms(1) by simp
  have "monthIndex (projections out ! i) = real i
        \<and> month (projections out ! i) = addMonths (startMonth (assumptions input)) (int i)"
    if "i < n" for i
  proof -
    from that len have "i < length (projections out)" by simp
    from runScenario_nth [OF run this] show ?thesis
      by (auto simp: projectMonth_label)
  qed
  with run len show ?thesis by blast
qed

text \<open>
  C4 says that the record at position \<open>i\<close> has the label of the start month advanced by
  \<open>i\<close> months. For the start month \<open>0050-06\<close> \<open>addMonths\<close> builds
  \<open>new Date(50, 5, 1)\<close>, which is June 1950: the two records of the run are labelled
  \<open>1950-06\<close> and \<open>1950-07\<close>, not \<open>0050-06\<close> and \<open>0050-07\<close>.
\<close>

theorem labels_of_year_50:
  "map_sum id (map monthIndex \<circ> projections) (runScenario legacy_year_input) = Inr [0, 1]
   \<and> map_sum id (map month \<circ> projections) (runScenario legacy_year_input)
       = Inr [''1950-06'', ''1950-07'']"
proof -
  have a0: "addMonths ''0050-06'' 0 = ''1950-06''"
    using addMonths_digits [of "''0050''" "''06''" 0] by (simp add: label_defs)
  have a1: "addMonths ''0050-06'' 1 = ''1950-07''"
    using addMonths_digits [of "''0050''" "''06''" 1] by (simp add: label_defs)
  show ?thesis
    by (simp add: engine_defs input_defs monthLoop_Cons monthLoop_Nil a0 a1)
qed

text \<open>
  From a year of three digits on the labels follow the calendar, but without the zeros
  of \<open>YYYY\<close>; past September 275760 there is no date left.
\<close>

lemma labels_of_other_years:
  "addMonths ''2024-01'' 13 = ''2025-02''"
  "addMonths ''2024-11'' 2 = ''2025-01''"
  "addMonths ''0500-03'' 0 = ''500-03''"
  "addMonths ''275760-09'' 1 = ''NaN-NaN''"
  using addMonths_digits [of "''2024''" "''01''" 13] addMonths_digits [of "''2024''" "''11''" 2]
    addMonths_digits [of "''0500''" "''03''" 0] addMonths_digits [of "''275760''" "''09''" 1]
  by (simp_all add: label_defs)

section \<open>Month 0\<close>

lemma runScenario_hd:
  assumes "0 < months (assumptions input)"
  shows "\<exists>out. runScenario input = Inr out
           \<and> hd (projections out) =
               projectMonth (assumptions input)
                 (applyScenarioOverrides (assumptions input) (scenarioOverrides input))
                 (hiringPlan input) (scenarioOverrides input) 0
                 (company_startingCash (company input)) 0"
proof -
  from assms obtain out where run: "runScenario input = Inr out"
    using runScenario_returns by blast
  from runScenario_projections [OF run] assms run show ?thesis
    by (simp add: monthLoop_Cons)
qed

text \<open>
  C1, as stated: the starting count of active customers is \<open>company.startingMRR\<close> over
  \<open>arpu\<close>, 100 in the scenario of the specification, and month 0 has an \<open>mrr\<close> of
  10500. In the run of that scenario the starting count is \<open>0\<close> (the quotient is taken
  from \<open>assumptions.startingMRR\<close>), month 0 has 10 active customers and an \<open>mrr\<close> of
  1050.
\<close>

theorem month0_of_spec_scenario:
  "startingActiveCustomers spec_assumptions = Fin 0
   \<and> map_sum id (activeCustomers \<circ> hd \<circ> projections) (runScenario spec_input) = Inr 10
   \<and> map_sum id (mrr \<circ> hd \<circ> projections) (runScenario spec_input) = Inr 1050"
proof -
  have "0 < months (assumptions spec_input)"
    by (simp add: input_defs)
  from runScenario_hd [OF this] obtain out where run: "runScenario spec_input = Inr out"
    and h: "hd (projections out) =
              projectMonth (assumptions spec_input)
                (applyScenarioOverrides (assumptions spec_input) (scenarioOverrides spec_input))
                (hiringPlan spec_input) (scenarioOverrides spec_input) 0
                (company_startingCash (company spec_input)) 0"
    by blast
  have "activeCustomers (hd (projections out)) = 10" and "mrr (hd (projections out)) = 1050"
    unfolding h by (simp_all add: engine_defs input_defs Let_def)
  with run show ?thesis
    by (simp add: startingActiveCustomers_zero)
qed

text \<open>
  C1, amended: the loop applies the customer transition of month 0 to the starting count
  \<open>s\<close> before it computes the revenue: month 0 has
  \<open>max(0, s + newCustomers - s * churnRate)\<close> active customers and an \<open>mrr\<close> of
  \<open>activeCustomers * arpu * (1 + expansionRevenueRate)\<close>, on the effective assumptions.
  In the scenario of the specification a starting count of 100 gives 105 active
  customers and an \<open>mrr\<close> of 11025 in month 0, not 100 and 10500. Where the starting
  count comes from is left out.
\<close>

theorem month0_transition_before_revenue:
  assumes "0 < months a"
  shows "\<exists>p rest. monthLoop a ea hp ov 0 cash s = p # rest
           \<and> (newCustomers p, churnedCustomers p, activeCustomers p)
               = calculateActiveCustomers s ea 0 ov
           \<and> activeCustomers p = max 0 (s + newCustomers p - s * churnRate ea)
           \<and> mrr p = activeCustomers p * arpu ea * (1 + expansionRevenueRate ea)"
proof -
  let ?p = "projectMonth a ea hp ov 0 cash s"
  from assms have "monthLoop a ea hp ov 0 cash s =
      ?p # monthLoop a ea hp ov (Suc 0) (endingCash ?p) (activeCustomers ?p)"
    by (simp add: monthLoop_Cons)
  moreover have "(newCustomers ?p, churnedCustomers ?p, activeCustomers ?p)
                   = calculateActiveCustomers s ea 0 ov"
    by (simp add: projectMonth_def Let_def split: prod.splits)
  moreover have "activeCustomers ?p = max 0 (s + newCustomers ?p - s * churnRate ea)"
    by (simp add: projectMonth_def calculateActiveCustomers_def Let_def split: prod.splits)
  moreover have "mrr ?p = activeCustomers ?p * arpu ea * (1 + expansionRevenueRate ea)"
    by (simp add: projectMonth_def calculateRevenue_def Let_def algebra_simps split: prod.splits)
  ultimately show ?thesis by blast
qed

theorem month0_transition_before_revenue_witness:
  "0 < months spec_assumptions
   \<and> (\<exists>p rest. monthLoop spec_assumptions spec_assumptions spec_hiring None 0 500000 100 = p # rest
         \<and> newCustomers p = 10 \<and> activeCustomers p = 105 \<and> mrr p = 11025)"
proof -
  have m: "0 < months spec_assumptions"
    by (simp add: input_defs)
  have c: "calculateActiveCustomers 100 spec_assumptions 0 None = (10, 5, 105)"
    by (simp add: calculateActiveCustomers_def findCustomOverride_def input_defs)
  from month0_transition_before_revenue [OF m, of spec_assumptions spec_hiring None 500000 100]
  obtain p rest where l: "monthLoop spec_assumptions spec_assumptions spec_hiring None 0 500000 100 = p # rest"
    and t: "(newCustomers p, churnedCustomers p, activeCustomers p)
              = calculateActiveCustomers 100 spec_assumptions 0 None"
    and r: "mrr p = activeCustomers p * arpu spec_assumptions * (1 + expansionRevenueRate spec_assumptions)"
    by blast
  from t c have "newCustomers p = 10" and a: "activeCustomers p = 105" by simp_all
  moreover from r a have "mrr p = 11025" by (simp add: input_defs)
  ultimately show ?thesis using m l by blast
qed

end
